theory Spec2Isabelle
  imports Main "HOL-Library.Sublist" "HOL-Library.AList"
begin

section \<open>Strings\<close>

text \<open>
  JavaScript strings are modelled as \<^typ>\<open>string\<close>: lists of 8-bit characters. The white
  space that \<^verbatim>\<open>String.prototype.trim\<close> strips is, in that range, TAB, LF, VT, FF, CR,
  SPACE and NO-BREAK SPACE.
\<close>

definition isWhiteSpace :: "char \<Rightarrow> bool" where
  "isWhiteSpace c \<longleftrightarrow>
     c = CHR 0x09 \<or> c = CHR 0x0A \<or> c = CHR 0x0B \<or> c = CHR 0x0C \<or> c = CHR 0x0D \<or>
     c = CHR 0x20 \<or> c = CHR 0xA0"

definition trim :: "string \<Rightarrow> string" where
  "trim s = rev (dropWhile isWhiteSpace (rev (dropWhile isWhiteSpace s)))"

text \<open>\<^verbatim>\<open>s.split(sep)\<close> for a one-character separator: never the empty list.\<close>

fun split_on :: "char \<Rightarrow> string \<Rightarrow> string list" where
  "split_on sep [] = [[]]"
| "split_on sep (c # cs) =
     (if c = sep then [] # split_on sep cs
      else (case split_on sep cs of
              [] \<Rightarrow> [[c]]
            | l # ls \<Rightarrow> (c # l) # ls))"

text \<open>\<^verbatim>\<open>s.includes(sub)\<close>.\<close>

fun includes_sub :: "string \<Rightarrow> string \<Rightarrow> bool" where
  "includes_sub [] sub = (sub = [])"
| "includes_sub (c # cs) sub = (prefix sub (c # cs) \<or> includes_sub cs sub)"

text \<open>Decimal digits; \<open>dec\<close> is \<^verbatim>\<open>Number.prototype.toString\<close> on a natural number.\<close>

definition digit :: "nat \<Rightarrow> char" where
  "digit d = ''0123456789'' ! d"

fun dec :: "nat \<Rightarrow> string" where
  "dec n = (if n < 10 then [digit n] else dec (n div 10) @ [digit (n mod 10)])"

declare dec.simps [simp del]

definition toString :: "int \<Rightarrow> string" where
  "toString i = (if i < 0 then CHR ''-'' # dec (nat (- i)) else dec (nat i))"


section \<open>Slideshow feature\<close>

text \<open>
  The component \<open>SlideshowGenerator\<close>: lines 1 to 174 of
  \<^verbatim>\<open>src/components/SlideshowGenerator.tsx\<close>. Line numbers are those of the file in which
  a definition's source stands.
\<close>

definition SLIDE_DURATION_MS :: nat where
  "SLIDE_DURATION_MS = 2500"

definition MAX_SLIDES :: nat where
  "MAX_SLIDES = 6"

text \<open>
  The component's state: the seven \<^verbatim>\<open>useState\<close> cells, the ref \<open>timeoutRef\<close>
  (\<open>None\<close> is \<^verbatim>\<open>null\<close>), and the browser's side of the timers: \<open>timers\<close> are the
  handles of the callbacks that are scheduled and have neither run nor been cleared,
  \<open>timerSeq\<close> the last handle \<^verbatim>\<open>window.setTimeout\<close> gave out.
\<close>

record SlideshowGenerator =
  inputText :: string
  slides :: "string list"
  currentSlideIndex :: nat
  isPlaying :: bool
  loading :: bool
  error :: "string option"
  statusMessage :: string
  timeoutRef :: "nat option"
  timers :: "nat list"
  timerSeq :: nat

definition clearTimeout :: "nat \<Rightarrow> SlideshowGenerator \<Rightarrow> SlideshowGenerator" where
  "clearTimeout i s = s\<lparr>timers := removeAll i (timers s)\<rparr>"

definition setTimeout :: "SlideshowGenerator \<Rightarrow> nat \<times> SlideshowGenerator" where
  "setTimeout s =
     (let i = Suc (timerSeq s) in (i, s\<lparr>timers := i # timers s, timerSeq := i\<rparr>))"

definition startSlideshow :: "string list \<Rightarrow> SlideshowGenerator \<Rightarrow> SlideshowGenerator" where
  "startSlideshow newSlides s =
     (if length newSlides = 0
      then s\<lparr>error := Some ''No valid slides generated. Please enter some text.'',
             isPlaying := False\<rparr>
      else s\<lparr>slides := newSlides, currentSlideIndex := 0, isPlaying := True,
             statusMessage := ''Slideshow playing...''\<rparr>)"

definition stopSlideshow :: "SlideshowGenerator \<Rightarrow> SlideshowGenerator" where
  "stopSlideshow s =
     (let s1 = (case timeoutRef s of
                  Some i \<Rightarrow> (clearTimeout i s)\<lparr>timeoutRef := None\<rparr>
                | None \<Rightarrow> s)
      in s1\<lparr>isPlaying := False,
             statusMessage := ''Slideshow stopped. Ready for new input!''\<rparr>)"

text \<open>
  The callback handed to \<^verbatim>\<open>setTimeout\<close> (lines 46 to 57): the functional update of
  \<open>currentSlideIndex\<close>. The \<open>slides\<close> it closes over are those of the render that armed
  the timer; the effect re-arms the timer whenever \<open>slides\<close> changes, so they are the
  state's.
\<close>

definition timer_callback :: "SlideshowGenerator \<Rightarrow> SlideshowGenerator" where
  "timer_callback s =
     (let prevIndex = currentSlideIndex s in
      if int prevIndex < int (length (slides s)) - 1
      then s\<lparr>currentSlideIndex := prevIndex + 1\<rparr>
      else (stopSlideshow s)
             \<lparr>statusMessage := ''Slideshow finished! You can generate another one.'',
              currentSlideIndex := 0\<rparr>)"

text \<open>The body of the \<^verbatim>\<open>useEffect\<close> (lines 41 to 61) and its cleanup (lines 63 to 67).\<close>

definition effect :: "SlideshowGenerator \<Rightarrow> SlideshowGenerator" where
  "effect s =
     (if isPlaying s \<and> length (slides s) > 0
      then (let s1 = (case timeoutRef s of Some i \<Rightarrow> clearTimeout i s | None \<Rightarrow> s);
                (i, s2) = setTimeout s1
            in s2\<lparr>timeoutRef := Some i\<rparr>)
      else (case timeoutRef s of
              Some i \<Rightarrow> if \<not> isPlaying s then (clearTimeout i s)\<lparr>timeoutRef := None\<rparr> else s
            | None \<Rightarrow> s))"

definition cleanup :: "SlideshowGenerator \<Rightarrow> SlideshowGenerator" where
  "cleanup s = (case timeoutRef s of Some i \<Rightarrow> clearTimeout i s | None \<Rightarrow> s)"

text \<open>
  A render after a state change: when one of the effect's dependencies
  \<^verbatim>\<open>[isPlaying, currentSlideIndex, slides]\<close> differs from the previous render, the
  previous effect's cleanup runs and then the effect.
\<close>

definition commit :: "SlideshowGenerator \<Rightarrow> SlideshowGenerator \<Rightarrow> SlideshowGenerator" where
  "commit old new =
     (if (isPlaying new, currentSlideIndex new, slides new)
           = (isPlaying old, currentSlideIndex old, slides old)
      then new else effect (cleanup new))"

text \<open>The browser runs the scheduled callback with handle \<open>i\<close>, if it is still pending.\<close>

definition timer_fires :: "nat \<Rightarrow> SlideshowGenerator \<Rightarrow> SlideshowGenerator" where
  "timer_fires i s =
     (if i \<in> set (timers s)
      then (let s1 = s\<lparr>timers := removeAll i (timers s)\<rparr> in commit s1 (timer_callback s1))
      else s)"

text \<open>One timer advance: the callback the component holds in \<open>timeoutRef\<close> runs.\<close>

definition timer_advance :: "SlideshowGenerator \<Rightarrow> SlideshowGenerator" where
  "timer_advance s = (case timeoutRef s of Some i \<Rightarrow> timer_fires i s | None \<Rightarrow> s)"

text \<open>Lines 75 and 76 of \<open>handleGenerate\<close>.\<close>

definition generatedSlides :: "string \<Rightarrow> string list" where
  "generatedSlides txt =
     (let rawLines = filter (\<lambda>line. length line > 0) (map trim (split_on CHR 0x0A txt))
      in take MAX_SLIDES rawLines)"

definition handleGenerate :: "SlideshowGenerator \<Rightarrow> SlideshowGenerator" where
  "handleGenerate s =
     (let s1 = stopSlideshow (s\<lparr>loading := True, error := None\<rparr>);
          new = generatedSlides (inputText s1)
      in commit s
           (if length new = 0
            then s1\<lparr>error := Some ''Please enter some text for your slideshow.'',
                    loading := False\<rparr>
            else (startSlideshow new s1)\<lparr>loading := False\<rparr>))"

text \<open>The component as mounted, and the slideshow playing slide \<open>k\<close> with its timer armed.\<close>

definition mounted :: SlideshowGenerator where
  "mounted = \<lparr>inputText = '''', slides = [], currentSlideIndex = 0, isPlaying = False,
     loading = False, error = None,
     statusMessage = ''Enter text to create your animated slideshow!'',
     timeoutRef = None, timers = [], timerSeq = 0\<rparr>"

definition playing_at :: "nat \<Rightarrow> SlideshowGenerator \<Rightarrow> bool" where
  "playing_at k s \<longleftrightarrow> isPlaying s \<and> currentSlideIndex s = k \<and>
      (case timeoutRef s of Some i \<Rightarrow> i \<in> set (timers s) | None \<Rightarrow> False)"


section \<open>Data model\<close>

text \<open>The types of \<^verbatim>\<open>src/unnamed/part_002\<close> (\<^verbatim>\<open>types.ts\<close>).\<close>

datatype sender = User | Bhaii

text \<open>
  A \<^verbatim>\<open>Date\<close> object holds a time value: an integral number of milliseconds since the
  epoch, at most \<open>8.64e15\<close> in magnitude, or NaN (\<open>None\<close>, the Invalid Date).
\<close>

datatype date = Date "int option"

definition in_range :: "int \<Rightarrow> bool" where
  "in_range t \<longleftrightarrow> - 8640000000000000 \<le> t \<and> t \<le> 8640000000000000"

text \<open>The fields \<^verbatim>\<open>id\<close> and \<^verbatim>\<open>text\<close> are \<open>id'\<close> and \<open>text'\<close> here.\<close>

record ChatMessage =
  id' :: string
  sender :: sender
  text' :: string
  timestamp :: date


section \<open>AI gateway\<close>

text \<open>
  The three operations of \<^verbatim>\<open>src/services/geminiService.ts\<close> (lines 1 to 185), with the
  constants of \<^verbatim>\<open>src/unnamed/part_000\<close>.
\<close>

text \<open>
  A thrown value is an \<^verbatim>\<open>Error\<close> with its message; an object thrown without a message
  (the event a \<^verbatim>\<open>FileReader\<close> rejects with) behaves in this code as one whose message is
  empty. An awaited call either returns or throws.
\<close>

datatype js_error = Error string

fun message :: "js_error \<Rightarrow> string" where
  "message (Error m) = m"

datatype 'a outcome = Returns 'a | Throws js_error

definition CHAT_MODEL_NAME :: string where
  "CHAT_MODEL_NAME = ''gemini-flash-latest''"

definition IMAGE_EDIT_MODEL_NAME :: string where
  "IMAGE_EDIT_MODEL_NAME = ''gemini-2.5-flash-image''"

definition HD_IMAGE_GEN_MODEL_NAME :: string where
  "HD_IMAGE_GEN_MODEL_NAME = ''imagen-4.0-generate-001''"

definition BHAI_SYSTEM_INSTRUCTION :: string where
  "BHAI_SYSTEM_INSTRUCTION =
     ''You are a supportive, friendly, and helpful elder brother ('bhaii'). \<newline>You respond quickly with short, clear, and encouraging messages. \<newline>You use common Hindi/Marathi phrases naturally to add a local touch, for example, \"Kya haal hai?\", \"Theek hai?\", \"Bilkul!\", \"Chal ab!\", \"Koi nahi\", \"Shabaash!\", \"Khush raho!\".\<newline>Remember the user's name if they've provided it.\<newline>Keep answers concise and to the point.''"

definition IMAGE_RESPONSE_MODALITIES :: "string list" where
  "IMAGE_RESPONSE_MODALITIES = [''IMAGE'']"

text \<open>
  What the gateway sends: a role-tagged unit \<^verbatim>\<open>{role, parts: [{text}]}\<close>, inline image
  data (a field the service leaves out is \<open>None\<close> and prints as \<^verbatim>\<open>undefined\<close>), and
  the three calls with their arguments.
\<close>

record content =
  role :: string
  parts :: "string list"

record inlineData =
  mimeType :: "string option"
  data :: "string option"

record generatedImage =
  imageBytes :: "string option"
  imageMimeType :: "string option"

record image_file =
  file_name :: string
  file_type :: string

datatype aspectRatio = Ratio_1_1 | Ratio_3_4 | Ratio_4_3 | Ratio_9_16 | Ratio_16_9

datatype chat_call = Chat_call string string "content list" string

datatype edit_call = Edit_call string inlineData string "string list"

datatype image_call = Image_call string string nat string aspectRatio

text \<open>
  What a gateway operation does to the outside, in order: the remote calls it issues,
  the lines it writes with \<^verbatim>\<open>console.error\<close> (a label and the thrown error, or the
  response), and the key dialog it opens.
\<close>

datatype logged = Logged_error js_error | Logged_response

datatype event =
    Sent_chat chat_call
  | Sent_edit edit_call
  | Sent_image image_call
  | Console_error string logged
  | Opened_select_key

text \<open>
  The outside the gateway reads: \<^verbatim>\<open>process.env.API_KEY\<close>, the remote service (the chat
  stream as the \<^verbatim>\<open>text\<close> of each chunk; the edit reply as what the optional chain of
  line 125 reads from it; the image reply as \<^verbatim>\<open>generatedImages?.[0]?.image\<close>), the
  \<^verbatim>\<open>FileReader\<close> and \<^verbatim>\<open>window.aistudio.openSelectKey\<close>.
\<close>

record env =
  API_KEY :: "string option"
  sendMessageStream :: "chat_call \<Rightarrow> string option list outcome"
  readAsDataURL :: "image_file \<Rightarrow> string outcome"
  generateContent :: "edit_call \<Rightarrow> inlineData option outcome"
  generateImages :: "image_call \<Rightarrow> generatedImage option outcome"
  openSelectKey :: "unit outcome"

text \<open>The results; \<^verbatim>\<open>text\<close> and \<^verbatim>\<open>error\<close> of a chat result are \<open>reply_text\<close> and
  \<open>reply_error\<close>, \<^verbatim>\<open>error\<close> of an image result is \<open>image_error\<close>.\<close>

record GeminiChatResponse =
  reply_text :: string
  reply_error :: "string option"

record GeminiImageEditResponse =
  imageUrl :: "string option"
  image_error :: "string option"

type_synonym GeminiHDImageGenerationResponse = GeminiImageEditResponse

definition getGeminiClient :: "env \<Rightarrow> string outcome" where
  "getGeminiClient e =
     (case API_KEY e of
        None \<Rightarrow>
          Throws (Error ''API_KEY is not set. Please ensure it is configured in your environment.'')
      | Some k \<Rightarrow>
          if k = []
          then Throws (Error ''API_KEY is not set. Please ensure it is configured in your environment.'')
          else Returns k)"

definition blobToBase64 :: "env \<Rightarrow> image_file \<Rightarrow> string option outcome" where
  "blobToBase64 e blob =
     (case readAsDataURL e blob of
        Throws x \<Rightarrow> Throws x
      | Returns result \<Rightarrow>
          (case split_on CHR '','' result of
             _ # b # _ \<Rightarrow> Returns (Some b)
           | _ \<Rightarrow> Returns None))"

text \<open>A template literal prints an absent value as \<^verbatim>\<open>undefined\<close>.\<close>

definition template :: "string option \<Rightarrow> string" where
  "template v = (case v of Some s \<Rightarrow> s | None \<Rightarrow> ''undefined'')"

subsection \<open>chatWithBhaii\<close>

definition formattedHistory :: "ChatMessage list \<Rightarrow> content list" where
  "formattedHistory history =
     map (\<lambda>msg. \<lparr>role = (if sender msg = User then ''user'' else ''model''),
                 parts = [text' msg]\<rparr>) history"

definition personalizedMessage :: "string \<Rightarrow> string \<Rightarrow> string" where
  "personalizedMessage userName msg =
     (if userName \<noteq> [] then userName @ '' says: '' @ msg else msg)"

text \<open>The \<^verbatim>\<open>for await\<close> loop of lines 75 to 81.\<close>

definition fullText :: "string option list \<Rightarrow> string" where
  "fullText chunks =
     foldl (\<lambda>acc c. case c of Some t \<Rightarrow> if t \<noteq> [] then acc @ t else acc | None \<Rightarrow> acc)
       [] chunks"

text \<open>Lines 62 to 83, given the formatted history.\<close>

definition chat_send ::
  "env \<Rightarrow> content list \<Rightarrow> string \<Rightarrow> string \<Rightarrow> GeminiChatResponse outcome \<times> event list" where
  "chat_send e formatted msg userName =
     (let call = Chat_call CHAT_MODEL_NAME BHAI_SYSTEM_INSTRUCTION formatted
                   (personalizedMessage userName msg)
      in case sendMessageStream e call of
           Throws x \<Rightarrow> (Throws x, [Sent_chat call])
         | Returns chunks \<Rightarrow>
             (Returns \<lparr>reply_text = trim (fullText chunks), reply_error = None\<rparr>,
              [Sent_chat call]))"

text \<open>The \<^verbatim>\<open>try\<close> block, lines 51 to 83.\<close>

definition chat_try ::
  "env \<Rightarrow> string \<Rightarrow> ChatMessage list \<Rightarrow> string \<Rightarrow> GeminiChatResponse outcome \<times> event list" where
  "chat_try e msg history userName =
     (case getGeminiClient e of
        Throws x \<Rightarrow> (Throws x, [])
      | Returns ai \<Rightarrow> chat_send e (formattedHistory history) msg userName)"

text \<open>The \<^verbatim>\<open>catch\<close> clause, lines 84 to 93, after a \<^verbatim>\<open>try\<close> block that did \<open>evs\<close>.\<close>

definition chat_catch ::
  "env \<Rightarrow> GeminiChatResponse outcome \<times> event list \<Rightarrow> GeminiChatResponse outcome \<times> event list" where
  "chat_catch e tried =
     (case tried of
        (Returns r, evs) \<Rightarrow> (Returns r, evs)
      | (Throws err, evs) \<Rightarrow>
          (let evs1 = evs @ [Console_error ''Error chatting with Bhaii:'' (Logged_error err)] in
           if message err \<noteq> [] \<and> includes_sub (message err) ''Requested entity was not found''
           then (case openSelectKey e of
                   Throws x \<Rightarrow> (Throws x, evs1 @ [Opened_select_key])
                 | Returns _ \<Rightarrow>
                     (Returns \<lparr>reply_text = '''',
                        reply_error =
                          Some ''API key issue. Please select your API key again from the dialog.''\<rparr>,
                      evs1 @ [Opened_select_key]))
           else (Returns \<lparr>reply_text = '''',
                   reply_error = Some ''Sorry, kuch gadbad ho gayi. Can you please try again?''\<rparr>,
                 evs1)))"

definition chatWithBhaii ::
  "env \<Rightarrow> string \<Rightarrow> ChatMessage list \<Rightarrow> string \<Rightarrow> GeminiChatResponse outcome \<times> event list" where
  "chatWithBhaii e msg history userName = chat_catch e (chat_try e msg history userName)"

subsection \<open>chatWithBhaii over an explicit store\<close>

text \<open>
  For the frame property the arguments are references. A store is a list of cells, an
  address is an index into it, and an allocation appends a cell. \<open>history\<close> is the
  address of an array of addresses of messages; \<^verbatim>\<open>history.map\<close> reads them and allocates
  the array of role-tagged units. Reading through an address that holds no array, or no
  message, is the \<^verbatim>\<open>TypeError\<close> JavaScript throws there, inside the \<^verbatim>\<open>try\<close> block.
\<close>

datatype cell =
    Message_cell ChatMessage
  | Message_array "nat list"
  | Content_array "content list"

type_synonym store = "cell list"

definition read_message :: "store \<Rightarrow> nat \<Rightarrow> ChatMessage option" where
  "read_message st a =
     (if a < length st then (case st ! a of Message_cell m \<Rightarrow> Some m | _ \<Rightarrow> None) else None)"

definition read_history :: "store \<Rightarrow> nat \<Rightarrow> ChatMessage list option" where
  "read_history st a =
     (if a < length st
      then (case st ! a of Message_array refs \<Rightarrow> those (map (read_message st) refs) | _ \<Rightarrow> None)
      else None)"

definition read_contents :: "store \<Rightarrow> nat \<Rightarrow> content list" where
  "read_contents st a =
     (if a < length st then (case st ! a of Content_array cs \<Rightarrow> cs | _ \<Rightarrow> []) else [])"

definition history_map :: "store \<Rightarrow> nat \<Rightarrow> (nat \<times> store) outcome" where
  "history_map st history =
     (case read_history st history of
        None \<Rightarrow> Throws (Error ''Cannot read properties of undefined'')
      | Some msgs \<Rightarrow> Returns (length st, st @ [Content_array (formattedHistory msgs)]))"

definition chatWithBhaii_store ::
  "env \<Rightarrow> string \<Rightarrow> nat \<Rightarrow> string \<Rightarrow> store
     \<Rightarrow> (GeminiChatResponse outcome \<times> event list) \<times> store" where
  "chatWithBhaii_store e msg history userName st =
     (case getGeminiClient e of
        Throws x \<Rightarrow> (chat_catch e (Throws x, []), st)
      | Returns ai \<Rightarrow>
          (case history_map st history of
             Throws x \<Rightarrow> (chat_catch e (Throws x, []), st)
           | Returns (formatted, st1) \<Rightarrow>
               (chat_catch e (chat_send e (read_contents st1 formatted) msg userName), st1)))"

subsection \<open>editImageWithGemini\<close>

definition edit_try ::
  "env \<Rightarrow> image_file \<Rightarrow> string \<Rightarrow> GeminiImageEditResponse outcome \<times> event list" where
  "edit_try e imageFile prompt =
     (case getGeminiClient e of
        Throws x \<Rightarrow> (Throws x, [])
      | Returns ai \<Rightarrow>
          (case blobToBase64 e imageFile of
             Throws x \<Rightarrow> (Throws x, [])
           | Returns base64ImageData \<Rightarrow>
               (let imagePart = \<lparr>mimeType = Some (file_type imageFile), data = base64ImageData\<rparr>;
                    call = Edit_call IMAGE_EDIT_MODEL_NAME imagePart prompt
                             IMAGE_RESPONSE_MODALITIES
                in case generateContent e call of
                     Throws x \<Rightarrow> (Throws x, [Sent_edit call])
                   | Returns editedImagePart \<Rightarrow>
                       (case editedImagePart of
                          Some p \<Rightarrow>
                            (Returns \<lparr>imageUrl =
                                 Some (''data:'' @ template (mimeType p) @ '';base64,''
                                         @ template (data p)),
                               image_error = None\<rparr>,
                             [Sent_edit call])
                        | None \<Rightarrow>
                            (Returns \<lparr>imageUrl = None,
                               image_error =
                                 Some ''Could not generate edited image. Please try a different prompt.''\<rparr>,
                             [Sent_edit call,
                              Console_error ''No image data received from Gemini:''
                                Logged_response])))))"

definition edit_catch ::
  "env \<Rightarrow> GeminiImageEditResponse outcome \<times> event list
     \<Rightarrow> GeminiImageEditResponse outcome \<times> event list" where
  "edit_catch e tried =
     (case tried of
        (Returns r, evs) \<Rightarrow> (Returns r, evs)
      | (Throws err, evs) \<Rightarrow>
          (let evs1 = evs @ [Console_error ''Error editing image with Gemini:'' (Logged_error err)] in
           if message err \<noteq> [] \<and> includes_sub (message err) ''Requested entity was not found''
           then (case openSelectKey e of
                   Throws x \<Rightarrow> (Throws x, evs1 @ [Opened_select_key])
                 | Returns _ \<Rightarrow>
                     (Returns \<lparr>imageUrl = None,
                        image_error =
                          Some ''API key issue. Please select your API key again from the dialog.''\<rparr>,
                      evs1 @ [Opened_select_key]))
           else (Returns \<lparr>imageUrl = None,
                   image_error = Some ''Failed to edit image. Network issue or invalid prompt?''\<rparr>,
                 evs1)))"

definition editImageWithGemini ::
  "env \<Rightarrow> image_file \<Rightarrow> string \<Rightarrow> GeminiImageEditResponse outcome \<times> event list" where
  "editImageWithGemini e imageFile prompt = edit_catch e (edit_try e imageFile prompt)"

subsection \<open>generateHDImageWithGemini\<close>

definition hd_no_image :: "image_call \<Rightarrow> GeminiHDImageGenerationResponse outcome \<times> event list" where
  "hd_no_image call =
     (Returns \<lparr>imageUrl = None,
        image_error = Some ''Could not generate HD image. Please try a different prompt.''\<rparr>,
      [Sent_image call,
       Console_error ''No image data received from HD image generator:'' Logged_response])"

definition hd_try ::
  "env \<Rightarrow> string \<Rightarrow> aspectRatio \<Rightarrow> GeminiHDImageGenerationResponse outcome \<times> event list" where
  "hd_try e prompt ratio =
     (case getGeminiClient e of
        Throws x \<Rightarrow> (Throws x, [])
      | Returns ai \<Rightarrow>
          if trim prompt = []
          then (Returns \<lparr>imageUrl = None,
                  image_error = Some ''Please provide a text prompt for image generation.''\<rparr>,
                [])
          else (let call = Image_call HD_IMAGE_GEN_MODEL_NAME (trim prompt) 1 ''image/jpeg'' ratio
                in case generateImages e call of
                     Throws x \<Rightarrow> (Throws x, [Sent_image call])
                   | Returns None \<Rightarrow> hd_no_image call
                   | Returns (Some img) \<Rightarrow>
                       (case imageBytes img of
                          None \<Rightarrow> hd_no_image call
                        | Some bytes \<Rightarrow>
                            if bytes = [] then hd_no_image call
                            else (Returns \<lparr>imageUrl =
                                      Some (''data:'' @ template (imageMimeType img)
                                              @ '';base64,'' @ bytes),
                                    image_error = None\<rparr>,
                                  [Sent_image call]))))"

definition hd_catch ::
  "env \<Rightarrow> GeminiHDImageGenerationResponse outcome \<times> event list
     \<Rightarrow> GeminiHDImageGenerationResponse outcome \<times> event list" where
  "hd_catch e tried =
     (case tried of
        (Returns r, evs) \<Rightarrow> (Returns r, evs)
      | (Throws err, evs) \<Rightarrow>
          (let evs1 = evs @ [Console_error ''Error generating HD image with Gemini:''
                              (Logged_error err)] in
           if message err \<noteq> [] \<and> includes_sub (message err) ''Requested entity was not found.''
           then (case openSelectKey e of
                   Throws x \<Rightarrow> (Throws x, evs1 @ [Opened_select_key])
                 | Returns _ \<Rightarrow>
                     (Returns \<lparr>imageUrl = None,
                        image_error =
                          Some ''API key issue: HD Image generation requires billing. Please ensure your API key is enabled for billing and re-select it.''\<rparr>,
                      evs1 @ [Opened_select_key]))
           else (Returns \<lparr>imageUrl = None,
                   image_error =
                     Some (''Failed to generate HD image: ''
                             @ (if message err \<noteq> [] then message err else ''Unknown error''))\<rparr>,
                 evs1)))"

definition generateHDImageWithGemini ::
  "env \<Rightarrow> string \<Rightarrow> aspectRatio \<Rightarrow> GeminiHDImageGenerationResponse outcome \<times> event list" where
  "generateHDImageWithGemini e prompt ratio = hd_catch e (hd_try e prompt ratio)"

text \<open>An operation issued a remote call when its events hold one.\<close>

fun is_remote_call :: "event \<Rightarrow> bool" where
  "is_remote_call (Sent_chat _) = True"
| "is_remote_call (Sent_edit _) = True"
| "is_remote_call (Sent_image _) = True"
| "is_remote_call _ = False"


section \<open>Session controller\<close>

text \<open>
  The component \<open>ChatInterface\<close>: lines 174 to 370 of
  \<^verbatim>\<open>src/components/SlideshowGenerator.tsx\<close>.
\<close>

text \<open>
  The props and the state of the component; its \<^verbatim>\<open>loading\<close> flag is \<open>sending\<close>.
  The clock is read twice before the request (\<^verbatim>\<open>Date.now()\<close>, \<^verbatim>\<open>new Date()\<close>) and
  twice after it.
\<close>

record ChatInterface =
  userName :: string
  rememberMe :: bool
  chatHistory :: "ChatMessage list"
  inputMessage :: string
  sending :: bool

record clock =
  now_sent :: int
  date_sent :: int
  now_replied :: int
  date_replied :: int

text \<open>
  \<open>handleSendMessage\<close> up to its \<^verbatim>\<open>await\<close> (lines 227 to 243): \<open>None\<close> when the guard
  of line 228 returns, else the state it leaves and the arguments of the gateway call.
\<close>

definition submit ::
  "clock \<Rightarrow> ChatInterface \<Rightarrow> (ChatInterface \<times> string \<times> ChatMessage list \<times> string) option" where
  "submit clk s =
     (if trim (inputMessage s) = '''' \<or> sending s then None
      else (let newUserMessage = \<lparr>id' = toString (now_sent clk), sender = User,
                                   text' = trim (inputMessage s),
                                   timestamp = Date (Some (date_sent clk))\<rparr>;
                updatedHistory = chatHistory s @ [newUserMessage]
            in Some (s\<lparr>chatHistory := updatedHistory, inputMessage := '''', sending := True\<rparr>,
                     trim (inputMessage s), updatedHistory, userName s)))"

text \<open>
  After the \<^verbatim>\<open>await\<close> (lines 244 to 264), on the state \<open>prev\<close> of that moment, with what
  the awaited gateway call did.
\<close>

definition settle ::
  "clock \<Rightarrow> GeminiChatResponse outcome \<Rightarrow> ChatInterface \<Rightarrow> ChatInterface" where
  "settle clk awaited prev =
     (case awaited of
        Returns response \<Rightarrow>
          (let bhaiiResponse =
                 \<lparr>id' = toString (now_replied clk + 1), sender = Bhaii,
                  text' = (if reply_text response \<noteq> [] then reply_text response
                           else (case reply_error response of
                                   Some err \<Rightarrow> if err \<noteq> [] then err
                                              else ''Oops, kuch error ho gaya.''
                                 | None \<Rightarrow> ''Oops, kuch error ho gaya.'')),
                  timestamp = Date (Some (date_replied clk))\<rparr>
           in prev\<lparr>chatHistory := chatHistory prev @ [bhaiiResponse], sending := False\<rparr>)
      | Throws err \<Rightarrow>
          (let errorMessage =
                 \<lparr>id' = toString (now_replied clk + 1), sender = Bhaii,
                  text' = ''Bhaii ko kuch dikkat ho gayi. Dobara try karo na.'',
                  timestamp = Date (Some (date_replied clk))\<rparr>
           in prev\<lparr>chatHistory := chatHistory prev @ [errorMessage], sending := False\<rparr>))"

text \<open>The whole handler, the gateway being any function of its three arguments.\<close>

definition handleSendMessage ::
  "(string \<Rightarrow> ChatMessage list \<Rightarrow> string \<Rightarrow> GeminiChatResponse outcome)
     \<Rightarrow> clock \<Rightarrow> ChatInterface \<Rightarrow> ChatInterface" where
  "handleSendMessage gateway clk s =
     (case submit clk s of
        None \<Rightarrow> s
      | Some (s1, msg, updatedHistory, name) \<Rightarrow> settle clk (gateway msg updatedHistory name) s1)"

text \<open>A submission from the page: the input is typed (line 358), then the form is sent.\<close>

type_synonym submission =
  "(string \<Rightarrow> ChatMessage list \<Rightarrow> string \<Rightarrow> GeminiChatResponse outcome) \<times> clock \<times> string"

definition type_and_send :: "submission \<Rightarrow> ChatInterface \<Rightarrow> ChatInterface" where
  "type_and_send sub s =
     (case sub of (gateway, clk, typed) \<Rightarrow> handleSendMessage gateway clk (s\<lparr>inputMessage := typed\<rparr>))"


section \<open>Dates as text\<close>

text \<open>
  \<^verbatim>\<open>Date.prototype.toISOString\<close>, after ECMA-262 (Date objects): the day number and the
  time within the day of a time value, the year, month and day of the month of a day
  number, and the text \<^verbatim>\<open>YYYY-MM-DDTHH:mm:ss.sssZ\<close>, the year with a sign and six
  digits when it is not within 0 to 9999.
\<close>

definition msPerDay :: int where
  "msPerDay = 86400000"

definition Day :: "int \<Rightarrow> int" where
  "Day t = t div msPerDay"

definition TimeWithinDay :: "int \<Rightarrow> int" where
  "TimeWithinDay t = t mod msPerDay"

definition DayFromYear :: "int \<Rightarrow> int" where
  "DayFromYear y =
     365 * (y - 1970) + (y - 1969) div 4 - (y - 1901) div 100 + (y - 1601) div 400"

definition InLeapYear :: "int \<Rightarrow> bool" where
  "InLeapYear y \<longleftrightarrow> (y mod 4 = 0 \<and> y mod 100 \<noteq> 0) \<or> y mod 400 = 0"

text \<open>The largest year that starts on or before day \<open>d\<close>: an estimate, corrected by one.\<close>

definition YearFromDay :: "int \<Rightarrow> int" where
  "YearFromDay d =
     (let y = 1970 + (400 * d) div 146097 in
      if d < DayFromYear y then y - 1
      else if DayFromYear (y + 1) \<le> d then y + 1
      else y)"

text \<open>The day within the year on which month \<open>m\<close> (0 to 11) starts.\<close>

definition month_start :: "bool \<Rightarrow> nat \<Rightarrow> int" where
  "month_start leap m =
     [0, 31, 59, 90, 120, 151, 181, 212, 243, 273, 304, 334] ! m
       + (if leap \<and> 2 \<le> m then 1 else 0)"

definition MonthFromDay :: "bool \<Rightarrow> int \<Rightarrow> nat" where
  "MonthFromDay leap dayWithinYear =
     length (takeWhile (\<lambda>m. month_start leap m \<le> dayWithinYear) [1, 2, 3, 4, 5, 6, 7, 8, 9, 10, 11])"

fun pad :: "nat \<Rightarrow> nat \<Rightarrow> string" where
  "pad 0 n = []"
| "pad (Suc w) n = pad w (n div 10) @ [digit (n mod 10)]"

definition year_text :: "int \<Rightarrow> string" where
  "year_text y =
     (if 0 \<le> y \<and> y \<le> 9999 then pad 4 (nat y)
      else (if y < 0 then ''-'' else ''+'') @ pad 6 (nat \<bar>y\<bar>))"

definition date_time_text :: "int \<Rightarrow> nat \<Rightarrow> nat \<Rightarrow> nat \<Rightarrow> nat \<Rightarrow> nat \<Rightarrow> nat \<Rightarrow> string" where
  "date_time_text y mo dt h mi s ms =
     year_text y @ ''-'' @ pad 2 mo @ ''-'' @ pad 2 dt
       @ ''T'' @ pad 2 h @ '':'' @ pad 2 mi @ '':'' @ pad 2 s @ ''.'' @ pad 3 ms @ ''Z''"

definition toISOString :: "int \<Rightarrow> string" where
  "toISOString t =
     (let d = Day t; y = YearFromDay d; dayWithinYear = d - DayFromYear y;
          m = MonthFromDay (InLeapYear y) dayWithinYear;
          dt = dayWithinYear - month_start (InLeapYear y) m + 1;
          ms = TimeWithinDay t
      in date_time_text y (m + 1) (nat dt)
           (nat (ms div 3600000)) (nat (ms div 60000 mod 60)) (nat (ms div 1000 mod 60))
           (nat (ms mod 1000)))"

text \<open>
  \<^verbatim>\<open>Date.parse\<close>. A text in the format above is read field by field (\<open>MakeDay\<close>,
  \<open>MakeTime\<close>, \<open>MakeDate\<close>); it is taken as a date of that format when its fields are in
  bounds, that is, when the time value prints back as the same text. For every other
  text ECMA-262 leaves the result to the host, which is the parameter \<open>host\<close> here
  (\<open>None\<close> is NaN).
\<close>

definition digit_value :: "char \<Rightarrow> nat option" where
  "digit_value c =
     (if c \<in> set ''0123456789'' then Some (of_char c - 48) else None)"

fun number :: "nat \<Rightarrow> string \<Rightarrow> nat option" where
  "number acc [] = Some acc"
| "number acc (c # cs) =
     (case digit_value c of None \<Rightarrow> None | Some v \<Rightarrow> number (10 * acc + v) cs)"

definition digits :: "nat \<Rightarrow> string \<Rightarrow> (nat \<times> string) option" where
  "digits w s =
     (if length s < w then None
      else (case number 0 (take w s) of None \<Rightarrow> None | Some n \<Rightarrow> Some (n, drop w s)))"

definition expect :: "char \<Rightarrow> string \<Rightarrow> string option" where
  "expect c s = (case s of x # r \<Rightarrow> if x = c then Some r else None | [] \<Rightarrow> None)"

definition MakeDay :: "int \<Rightarrow> nat \<Rightarrow> int \<Rightarrow> int" where
  "MakeDay y m dt = DayFromYear y + month_start (InLeapYear y) m + dt - 1"

definition MakeTime :: "int \<Rightarrow> int \<Rightarrow> int \<Rightarrow> int \<Rightarrow> int" where
  "MakeTime h mi s ms = h * 3600000 + mi * 60000 + s * 1000 + ms"

definition MakeDate :: "int \<Rightarrow> int \<Rightarrow> int" where
  "MakeDate d tm = d * msPerDay + tm"

definition read_year :: "string \<Rightarrow> (int \<times> string) option" where
  "read_year s =
     (case s of
        [] \<Rightarrow> None
      | c # r \<Rightarrow>
          if c = CHR ''+'' then map_option (\<lambda>(n, r'). (int n, r')) (digits 6 r)
          else if c = CHR ''-'' then map_option (\<lambda>(n, r'). (- int n, r')) (digits 6 r)
          else map_option (\<lambda>(n, r'). (int n, r')) (digits 4 s))"

definition field :: "char \<Rightarrow> nat \<Rightarrow> string \<Rightarrow> (nat \<times> string) option" where
  "field c w s = Option.bind (expect c s) (digits w)"

definition read_fields :: "string \<Rightarrow> int option" where
  "read_fields s =
     Option.bind (read_year s) (\<lambda>(y, r1).
     Option.bind (field CHR ''-'' 2 r1) (\<lambda>(mo, r2).
     Option.bind (field CHR ''-'' 2 r2) (\<lambda>(dt, r3).
     Option.bind (field CHR ''T'' 2 r3) (\<lambda>(h, r4).
     Option.bind (field CHR '':'' 2 r4) (\<lambda>(mi, r5).
     Option.bind (field CHR '':'' 2 r5) (\<lambda>(sec, r6).
     Option.bind (field CHR ''.'' 3 r6) (\<lambda>(ms, r7).
       if r7 = ''Z'' \<and> 1 \<le> mo
       then Some (MakeDate (MakeDay y (mo - 1) (int dt))
                    (MakeTime (int h) (int mi) (int sec) (int ms)))
       else None)))))))"

definition iso_parse :: "string \<Rightarrow> int option" where
  "iso_parse s =
     (case read_fields s of
        None \<Rightarrow> None
      | Some t \<Rightarrow> if in_range t \<and> toISOString t = s then Some t else None)"

definition Date_parse :: "(string \<Rightarrow> int option) \<Rightarrow> string \<Rightarrow> int option" where
  "Date_parse host s = (case iso_parse s of Some t \<Rightarrow> Some t | None \<Rightarrow> host s)"


section \<open>Preference store\<close>

text \<open>
  The save effect of \<open>ChatInterface\<close> and the load effect of \<open>App\<close>
  (\<^verbatim>\<open>src/unnamed/part_001\<close>).
\<close>

definition STORAGE_KEY_USER_PREFS :: string where
  "STORAGE_KEY_USER_PREFS = ''bhaii_ai_user_prefs''"

text \<open>
  JSON values, as \<^verbatim>\<open>JSON.parse\<close> returns them and \<^verbatim>\<open>JSON.stringify\<close> takes them
  (numbers: the integers). An object lists its own properties in order, each key once.
\<close>

datatype json =
    JNull
  | JBoolean bool
  | JNumber int
  | JString string
  | JArray "json list"
  | JObject "(string \<times> json) list"

text \<open>
  What is stored under the key, seen through the code that reads it: the empty text
  (which \<^verbatim>\<open>if (storedPrefs)\<close> skips), a text on which \<^verbatim>\<open>JSON.parse\<close> throws a
  \<^verbatim>\<open>SyntaxError\<close>, or the text of a JSON value. \<^verbatim>\<open>JSON.stringify\<close> writes the text
  of the value it is given. The storage holds the item of the one key the application
  uses, or nothing.
\<close>

datatype stored_text = Empty_text | Not_JSON | JSON_text json

type_synonym localStorage = "stored_text option"

subsection \<open>Saving (ChatInterface, lines 268 to 279)\<close>

record UserPreferences =
  prefs_name :: string
  prefs_rememberMe :: bool
  lastChat :: "ChatMessage list"

text \<open>\<^verbatim>\<open>Date.prototype.toJSON\<close>: the ISO text, and \<^verbatim>\<open>null\<close> for the Invalid Date.\<close>

fun toJSON :: "date \<Rightarrow> json" where
  "toJSON (Date None) = JNull"
| "toJSON (Date (Some t)) = JString (toISOString t)"

definition sender_text :: "sender \<Rightarrow> string" where
  "sender_text s = (case s of User \<Rightarrow> ''user'' | Bhaii \<Rightarrow> ''bhaii'')"

definition stringify_message :: "ChatMessage \<Rightarrow> json" where
  "stringify_message m =
     JObject [(''id'', JString (id' m)), (''sender'', JString (sender_text (sender m))),
              (''text'', JString (text' m)), (''timestamp'', toJSON (timestamp m))]"

definition stringify :: "UserPreferences \<Rightarrow> json" where
  "stringify userPrefs =
     JObject [(''name'', JString (prefs_name userPrefs)),
              (''rememberMe'', JBoolean (prefs_rememberMe userPrefs)),
              (''lastChat'', JArray (map stringify_message (lastChat userPrefs)))]"

definition save_effect :: "ChatInterface \<Rightarrow> localStorage \<Rightarrow> localStorage" where
  "save_effect s storage =
     (if rememberMe s
      then (let userPrefs = \<lparr>prefs_name = userName s, prefs_rememberMe = True,
                              lastChat = chatHistory s\<rparr>
            in Some (JSON_text (stringify userPrefs)))
      else None)"

subsection \<open>Loading (App, lines 19 to 36)\<close>

text \<open>
  Values read back are whatever \<^verbatim>\<open>JSON.parse\<close> returned: the state of \<open>App\<close> holds
  JSON values, and a loaded message is an object whose properties are JSON values but
  for \<open>timestamp\<close>, a \<^verbatim>\<open>Date\<close>.
\<close>

datatype field_value = Plain json | Date_value date

type_synonym loaded_message = "(string \<times> field_value) list"

datatype NavigationView = Home | Chat | Image_editor | Slideshow_generator | Hd_image_generator

record App =
  activeView :: NavigationView
  app_userName :: json
  app_rememberMe :: json
  app_chatHistory :: "loaded_message list"

definition App_mounted :: App where
  "App_mounted = \<lparr>activeView = Home, app_userName = JString '''',
     app_rememberMe = JBoolean False, app_chatHistory = []\<rparr>"

text \<open>
  Reading a property \<^verbatim>\<open>v.key\<close> of a value that is not \<^verbatim>\<open>null\<close>, for the keys this
  code reads (none of them is a property of a string, an array, a number or a boolean):
  \<open>None\<close> is \<^verbatim>\<open>undefined\<close>.
\<close>

definition property :: "json \<Rightarrow> string \<Rightarrow> json option" where
  "property v key = (case v of JObject kvs \<Rightarrow> map_of kvs key | _ \<Rightarrow> None)"

definition truthy :: "json \<Rightarrow> bool" where
  "truthy v =
     (case v of JNull \<Rightarrow> False | JBoolean b \<Rightarrow> b | JNumber n \<Rightarrow> n \<noteq> 0
      | JString s \<Rightarrow> s \<noteq> [] | JArray _ \<Rightarrow> True | JObject _ \<Rightarrow> True)"

text \<open>\<^verbatim>\<open>v || d\<close>.\<close>

definition or_else :: "json option \<Rightarrow> json \<Rightarrow> json" where
  "or_else v d = (case v of Some x \<Rightarrow> if truthy x then x else d | None \<Rightarrow> d)"

text \<open>The own properties that the spread \<^verbatim>\<open>{...v}\<close> copies.\<close>

definition spread :: "json \<Rightarrow> (string \<times> json) list" where
  "spread v =
     (case v of
        JObject kvs \<Rightarrow> kvs
      | JArray xs \<Rightarrow> zip (map dec [0..<length xs]) xs
      | JString s \<Rightarrow> zip (map dec [0..<length s]) (map (\<lambda>c. JString [c]) s)
      | _ \<Rightarrow> [])"

text \<open>
  \<^verbatim>\<open>new Date(v)\<close> with one argument that is no \<^verbatim>\<open>Date\<close>: a string is parsed, as is
  the string an array or an object converts to; anything else is converted to a number
  and clipped to the range of time values.
\<close>

fun join_elements :: "json list \<Rightarrow> string"
  and element_text :: "json \<Rightarrow> string" where
  "join_elements [] = []"
| "join_elements [x] = element_text x"
| "join_elements (x # y # ys) = element_text x @ '','' @ join_elements (y # ys)"
| "element_text JNull = []"
| "element_text (JBoolean b) = (if b then ''true'' else ''false'')"
| "element_text (JNumber n) = toString n"
| "element_text (JString s) = s"
| "element_text (JArray xs) = join_elements xs"
| "element_text (JObject kvs) = ''[object Object]''"

definition TimeClip :: "int \<Rightarrow> int option" where
  "TimeClip n = (if in_range n then Some n else None)"

definition new_Date :: "(string \<Rightarrow> int option) \<Rightarrow> json option \<Rightarrow> date" where
  "new_Date host v =
     (case v of
        None \<Rightarrow> Date None
      | Some JNull \<Rightarrow> Date (TimeClip 0)
      | Some (JBoolean b) \<Rightarrow> Date (TimeClip (if b then 1 else 0))
      | Some (JNumber n) \<Rightarrow> Date (TimeClip n)
      | Some (JString s) \<Rightarrow> Date (Date_parse host s)
      | Some (JArray xs) \<Rightarrow> Date (Date_parse host (join_elements xs))
      | Some (JObject kvs) \<Rightarrow> Date (Date_parse host ''[object Object]''))"

text \<open>The callback of \<^verbatim>\<open>lastChat.map\<close> (lines 27 to 30).\<close>

definition revive :: "(string \<Rightarrow> int option) \<Rightarrow> json \<Rightarrow> loaded_message outcome" where
  "revive host msg =
     (case msg of
        JNull \<Rightarrow> Throws (Error ''Cannot read properties of null (reading 'timestamp')'')
      | _ \<Rightarrow>
          Returns (AList.update ''timestamp'' (Date_value (new_Date host (property msg ''timestamp'')))
                     (map (\<lambda>(k, v). (k, Plain v)) (spread msg))))"

text \<open>\<^verbatim>\<open>xs.map(f)\<close> for a callback that may throw: the first throw ends it.\<close>

fun map_throwing :: "('a \<Rightarrow> 'b outcome) \<Rightarrow> 'a list \<Rightarrow> 'b list outcome" where
  "map_throwing f [] = Returns []"
| "map_throwing f (x # xs) =
     (case f x of
        Throws e \<Rightarrow> Throws e
      | Returns y \<Rightarrow> (case map_throwing f xs of Throws e \<Rightarrow> Throws e | Returns ys \<Rightarrow> Returns (y # ys)))"

text \<open>
  The \<^verbatim>\<open>try\<close> block after \<^verbatim>\<open>JSON.parse\<close> (lines 24 to 30): the state it leaves, and
  the error if it threw. A state update made before a throw stays made.
\<close>

definition load_try :: "(string \<Rightarrow> int option) \<Rightarrow> json \<Rightarrow> App \<Rightarrow> App \<times> js_error option" where
  "load_try host userPrefs app =
     (case userPrefs of
        JNull \<Rightarrow> (app, Some (Error ''Cannot read properties of null (reading 'name')''))
      | _ \<Rightarrow>
          (let app1 = app\<lparr>app_userName := or_else (property userPrefs ''name'') (JString '''')\<rparr>;
               app2 = app1\<lparr>app_rememberMe :=
                              or_else (property userPrefs ''rememberMe'') (JBoolean False)\<rparr>
           in case property userPrefs ''lastChat'' of
                Some (JArray msgs) \<Rightarrow>
                  (case map_throwing (revive host) msgs of
                     Throws e \<Rightarrow> (app2, Some e)
                   | Returns history \<Rightarrow> (app2\<lparr>app_chatHistory := history\<rparr>, None))
              | Some _ \<Rightarrow> (app2, Some (Error ''userPrefs.lastChat.map is not a function''))
              | None \<Rightarrow>
                  (app2, Some (Error ''Cannot read properties of undefined (reading 'map')''))))"

definition load_effect ::
  "(string \<Rightarrow> int option) \<Rightarrow> localStorage \<times> App \<Rightarrow> localStorage \<times> App" where
  "load_effect host world =
     (case world of (storage, app) \<Rightarrow>
        (case storage of
           None \<Rightarrow> (storage, app)
         | Some Empty_text \<Rightarrow> (storage, app)
         | Some Not_JSON \<Rightarrow> (None, app)
         | Some (JSON_text userPrefs) \<Rightarrow>
             (case load_try host userPrefs app of
                (app', None) \<Rightarrow> (storage, app')
              | (app', Some e) \<Rightarrow> (None, app'))))"

text \<open>A message of the transcript as the object it is in memory.\<close>

definition object_of_message :: "ChatMessage \<Rightarrow> loaded_message" where
  "object_of_message m =
     [(''id'', Plain (JString (id' m))), (''sender'', Plain (JString (sender_text (sender m)))),
      (''text'', Plain (JString (text' m))), (''timestamp'', Date_value (timestamp m))]"


section \<open>Example values\<close>

text \<open>
  An outside in which every remote call fails at the network, one in which the chat
  stream ends without a chunk, a session with one typed
  line, a clock, two turns and a file.
\<close>

definition offline :: env where
  "offline = \<lparr>API_KEY = Some ''key'',
     sendMessageStream = (\<lambda>_. Throws (Error ''socket hang up'')),
     readAsDataURL = (\<lambda>_. Returns ''data:image/png;base64,AAAA''),
     generateContent = (\<lambda>_. Throws (Error ''socket hang up'')),
     generateImages = (\<lambda>_. Throws (Error ''socket hang up'')),
     openSelectKey = Returns ()\<rparr>"

definition quiet :: env where
  "quiet = offline\<lparr>sendMessageStream := (\<lambda>_. Returns [])\<rparr>"

definition asha :: ChatInterface where
  "asha = \<lparr>userName = ''Asha'', rememberMe = False, chatHistory = [],
     inputMessage = '' hello '', sending = False\<rparr>"

definition noon :: clock where
  "noon = \<lparr>now_sent = 1700000000000, date_sent = 1700000000000,
     now_replied = 1700000000900, date_replied = 1700000000901\<rparr>"

definition greeting :: ChatMessage where
  "greeting = \<lparr>id' = ''welcome'', sender = Bhaii,
     text' = ''Namaste! Kya haal hai, mere bhai/behen? Kaise ho tum?'',
     timestamp = Date (Some 1700000000000)\<rparr>"

definition question :: ChatMessage where
  "question = \<lparr>id' = ''1700000000500'', sender = User, text' = ''Kya chal raha hai?'',
     timestamp = Date (Some 1700000000500)\<rparr>"

definition photo :: image_file where
  "photo = \<lparr>file_name = ''cat.png'', file_type = ''image/png''\<rparr>"


section \<open>Properties\<close>

subsection \<open>Strings\<close>

lemma trim_empty_iff: "trim s = [] \<longleftrightarrow> (\<forall>c \<in> set s. isWhiteSpace c)"
proof
  assume "trim s = []"
  then have "\<forall>x\<in>set (dropWhile isWhiteSpace s). isWhiteSpace x"
    by (simp add: trim_def)
  then have "dropWhile isWhiteSpace s = []"
    by (metis hd_dropWhile list.set_sel(1))
  then show "\<forall>c \<in> set s. isWhiteSpace c" by simp
next
  assume "\<forall>c \<in> set s. isWhiteSpace c"
  then have dd: "dropWhile isWhiteSpace s = []" using dropWhile_eq_Nil_conv by blast
  show "trim s = []" unfolding trim_def dd by simp
qed

lemma trim_last: 
  assumes "trim s \<noteq> []" shows "\<not> isWhiteSpace (last (trim s))"
proof -
  define b where "b = dropWhile isWhiteSpace (rev (dropWhile isWhiteSpace s))"
  have t: "trim s = rev b" by (simp add: trim_def b_def)
  with assms have "b \<noteq> []" by simp
  then have "\<not> isWhiteSpace (hd b)" unfolding b_def by (rule hd_dropWhile)
  then show ?thesis using t \<open>b \<noteq> []\<close> by (simp add: last_rev)
qed

lemma trim_hd: 
  assumes "trim s \<noteq> []" shows "\<not> isWhiteSpace (hd (trim s))"
proof -
  define a where "a = dropWhile isWhiteSpace s"
  define b where "b = dropWhile isWhiteSpace (rev a)"
  have t: "trim s = rev b" by (simp add: trim_def b_def a_def)
  with assms have bn: "b \<noteq> []" by simp
  have "rev a = takeWhile isWhiteSpace (rev a) @ b" by (simp add: b_def)
  then have "a = rev b @ rev (takeWhile isWhiteSpace (rev a))"
    by (metis rev_append rev_rev_ident)
  then have "hd a = hd (rev b)" using bn by (metis hd_append2 rev_is_Nil_conv)
  moreover have "a \<noteq> []" using bn b_def by auto
  then have "\<not> isWhiteSpace (hd a)" unfolding a_def by (rule hd_dropWhile)
  ultimately show ?thesis using t by simp
qed

lemma generatedSlides_example: "generatedSlides ''A\<newline>B\<newline>\<newline>C'' = [''A'', ''B'', ''C'']"
  by (simp add: generatedSlides_def MAX_SLIDES_def trim_def isWhiteSpace_def)

lemma length_generatedSlides: "length (generatedSlides t) \<le> 6"
  by (simp add: generatedSlides_def MAX_SLIDES_def)

lemma generatedSlides_trimmed:
  assumes "x \<in> set (generatedSlides t)"
  shows "x \<noteq> [] \<and> \<not> isWhiteSpace (hd x) \<and> \<not> isWhiteSpace (last x)"
proof -
  from assms have "x \<in> set (filter (\<lambda>line. length line > 0) (map trim (split_on CHR 0x0A t)))"
    unfolding generatedSlides_def Let_def by (rule in_set_takeD)
  then obtain l where "x = trim l" "x \<noteq> []" by auto
  then show ?thesis using trim_hd[of l] trim_last[of l] by simp
qed

lemma generatedSlides_eight:
  assumes "split_on CHR 0x0A t = ls" "length ls = 8" "\<forall>l \<in> set ls. trim l \<noteq> []"
  shows "generatedSlides t = map trim (take 6 ls)"
proof -
  have "filter (\<lambda>line. length line > 0) (map trim ls) = map trim ls"
    using assms(3) by (simp add: filter_id_conv)
  then show ?thesis using assms(1) by (simp add: generatedSlides_def MAX_SLIDES_def take_map)
qed


lemma handleGenerate_slides:
  assumes "generatedSlides (inputText s) \<noteq> []" "\<not> isPlaying s"
  shows "slides (handleGenerate s) = generatedSlides (inputText s)
     \<and> playing_at 0 (handleGenerate s)"
proof -
  define s1 where "s1 = stopSlideshow (s\<lparr>loading := True, error := None\<rparr>)"
  define new where "new = generatedSlides (inputText s)"
  define s2 where "s2 = (startSlideshow new s1)\<lparr>loading := False\<rparr>"
  have i1: "inputText s1 = inputText s"
    by (simp add: s1_def stopSlideshow_def clearTimeout_def split: option.splits)
  have t1: "timeoutRef s1 = None"
    by (simp add: s1_def stopSlideshow_def clearTimeout_def split: option.splits)
  have n: "new \<noteq> []" using assms(1) by (simp add: new_def)
  have s2: "isPlaying s2" "slides s2 = new" "currentSlideIndex s2 = 0" "timeoutRef s2 = None"
    using n t1 by (simp_all add: s2_def startSlideshow_def)
  have hg: "handleGenerate s = commit s s2"
    using n i1 by (simp add: handleGenerate_def Let_def s1_def[symmetric] new_def[symmetric] s2_def)
  have "commit s s2 = effect (cleanup s2)"
    using assms(2) s2(1) by (auto simp: commit_def)
  moreover have "cleanup s2 = s2" using s2(4) by (simp add: cleanup_def)
  moreover have "slides (effect s2) = new \<and> playing_at 0 (effect s2)"
    using s2 n by (simp add: effect_def setTimeout_def Let_def playing_at_def)
  ultimately show ?thesis using hg by (simp add: new_def)
qed


subsection \<open>Slideshow generation\<close>

text \<open>
  C6. Slideshow generation splits the input on newlines, trims every line, drops the
  empty ones and keeps the first \<open>MAX_SLIDES = 6\<close> in order: the text of lines A, B, an
  empty line and C gives the slides A, B, C; no slide is empty or starts or ends with
  white space; a text of 8 lines, none blank, gives its first 6 lines, trimmed; and
  \<open>handleGenerate\<close>, on a component that is not playing, stores exactly these slides.
\<close>

theorem slideshow_generation:
  "generatedSlides ''A\<newline>B\<newline>\<newline>C'' = [''A'', ''B'', ''C'']
   \<and> generatedSlides inp
       = take 6 (filter (\<lambda>line. line \<noteq> []) (map trim (split_on CHR 0x0A inp)))
   \<and> length (generatedSlides inp) \<le> 6
   \<and> (\<forall>x \<in> set (generatedSlides inp).
         x \<noteq> [] \<and> \<not> isWhiteSpace (hd x) \<and> \<not> isWhiteSpace (last x))
   \<and> (length (split_on CHR 0x0A inp) = 8 \<and> (\<forall>l \<in> set (split_on CHR 0x0A inp). trim l \<noteq> [])
        \<longrightarrow> generatedSlides inp = map trim (take 6 (split_on CHR 0x0A inp)))
   \<and> (generatedSlides (inputText s) \<noteq> [] \<and> \<not> isPlaying s
        \<longrightarrow> slides (handleGenerate s) = generatedSlides (inputText s)
            \<and> playing_at 0 (handleGenerate s))"
proof -
  have "generatedSlides inp
       = take 6 (filter (\<lambda>line. line \<noteq> []) (map trim (split_on CHR 0x0A inp)))"
    by (simp add: generatedSlides_def MAX_SLIDES_def)
  then show ?thesis
    using generatedSlides_example length_generatedSlides[of inp] generatedSlides_trimmed[of _ inp]
      generatedSlides_eight[of inp] handleGenerate_slides[of s]
    by blast
qed

theorem slideshow_generation_witness:
  "generatedSlides ''one\<newline> two\<newline>three \<newline>four\<newline>five\<newline>six\<newline>seven\<newline>eight''
     = [''one'', ''two'', ''three'', ''four'', ''five'', ''six'']
   \<and> slides (handleGenerate (mounted\<lparr>inputText := ''A\<newline>B\<newline>\<newline>C''\<rparr>)) = [''A'', ''B'', ''C'']"
proof -
  let ?t = "''one\<newline> two\<newline>three \<newline>four\<newline>five\<newline>six\<newline>seven\<newline>eight''"
  let ?s = "mounted\<lparr>inputText := ''A\<newline>B\<newline>\<newline>C''\<rparr>"
  have sp: "split_on CHR 0x0A ?t
      = [''one'', '' two'', ''three '', ''four'', ''five'', ''six'', ''seven'', ''eight'']"
    by simp
  have a: "length (split_on CHR 0x0A ?t) = 8 \<and> (\<forall>l \<in> set (split_on CHR 0x0A ?t). trim l \<noteq> [])"
    unfolding sp by (simp add: trim_def isWhiteSpace_def)
  have b: "generatedSlides (inputText ?s) \<noteq> [] \<and> \<not> isPlaying ?s"
    by (simp add: mounted_def generatedSlides_def MAX_SLIDES_def trim_def isWhiteSpace_def)
  have c: "map trim (take 6 (split_on CHR 0x0A ?t))
      = [''one'', ''two'', ''three'', ''four'', ''five'', ''six'']"
    unfolding sp by (simp add: trim_def isWhiteSpace_def)
  have d: "inputText ?s = ''A\<newline>B\<newline>\<newline>C''" by (simp add: mounted_def)
  from slideshow_generation[of ?t ?s] a b
  have "generatedSlides ?t = map trim (take 6 (split_on CHR 0x0A ?t))"
    and "slides (handleGenerate ?s) = generatedSlides (inputText ?s)"
    and "generatedSlides ''A\<newline>B\<newline>\<newline>C'' = [''A'', ''B'', ''C'']"
    by blast+
  then show ?thesis unfolding c d by simp
qed

subsection \<open>Slideshow playback\<close>

lemma advance_step:
  assumes "playing_at k s" "Suc k < length (slides s)"
  shows "playing_at (Suc k) (timer_advance s) \<and> slides (timer_advance s) = slides s"
proof -
  from assms(1) obtain i where i: "timeoutRef s = Some i" "i \<in> set (timers s)"
    and p: "isPlaying s" "currentSlideIndex s = k"
    by (auto simp: playing_at_def split: option.splits)
  define s1 where "s1 = s\<lparr>timers := removeAll i (timers s)\<rparr>"
  define s2 where "s2 = s1\<lparr>currentSlideIndex := Suc k\<rparr>"
  have cb: "timer_callback s1 = s2"
    using assms(2) p by (simp add: timer_callback_def s1_def s2_def)
  have "timer_advance s = commit s1 s2"
    using i cb by (simp add: timer_advance_def timer_fires_def s1_def Let_def)
  also have "\<dots> = effect (cleanup s2)"
    using p by (simp add: commit_def s1_def s2_def)
  finally have ta: "timer_advance s = effect (cleanup s2)" .
  have c: "isPlaying (cleanup s2)" "slides (cleanup s2) = slides s"
    "currentSlideIndex (cleanup s2) = Suc k"
    using p by (simp_all add: cleanup_def s2_def s1_def clearTimeout_def split: option.splits)
  have "slides s \<noteq> []" using assms(2) by auto
  then have "playing_at (Suc k) (effect (cleanup s2)) \<and> slides (effect (cleanup s2)) = slides s"
    using c by (simp add: effect_def setTimeout_def Let_def playing_at_def clearTimeout_def
        split: option.splits)
  then show ?thesis using ta by simp
qed

lemma advance_last:
  assumes "playing_at k s" "Suc k = length (slides s)"
  shows "\<not> isPlaying (timer_advance s) \<and> currentSlideIndex (timer_advance s) = 0
     \<and> timeoutRef (timer_advance s) = None \<and> slides (timer_advance s) = slides s"
proof -
  from assms(1) obtain i where i: "timeoutRef s = Some i" "i \<in> set (timers s)"
    and p: "isPlaying s" "currentSlideIndex s = k"
    by (auto simp: playing_at_def split: option.splits)
  define s1 where "s1 = s\<lparr>timers := removeAll i (timers s)\<rparr>"
  define s2 where "s2 = timer_callback s1"
  have s2: "\<not> isPlaying s2" "currentSlideIndex s2 = 0" "timeoutRef s2 = None"
    "slides s2 = slides s"
    using assms(2) p i
    by (simp_all add: s2_def timer_callback_def s1_def stopSlideshow_def clearTimeout_def)
  have "timer_advance s = commit s1 s2"
    using i by (simp add: timer_advance_def timer_fires_def s1_def s2_def Let_def)
  also have "\<dots> = effect (cleanup s2)"
    using p s2(1) by (auto simp: commit_def s1_def)
  also have "\<dots> = s2"
    using s2 by (simp add: cleanup_def effect_def)
  finally show ?thesis using s2 by simp
qed

lemma advance_many:
  assumes "playing_at 0 s" "k < length (slides s)"
  shows "playing_at k ((timer_advance ^^ k) s) \<and> slides ((timer_advance ^^ k) s) = slides s"
  using assms(2)
proof (induction k)
  case 0
  then show ?case using assms(1) by simp
next
  case (Suc k)
  then have "playing_at k ((timer_advance ^^ k) s)" "slides ((timer_advance ^^ k) s) = slides s"
    by simp_all
  then show ?case using advance_step[of k "(timer_advance ^^ k) s"] Suc.prems by simp
qed

text \<open>
  C7. With \<open>N \<ge> 1\<close> slides, playing slide 0 with the timer armed: before the \<open>k\<close>-th
  advance (\<open>k < N\<close>) the slideshow plays slide \<open>k\<close>, so each of the first \<open>N - 1\<close> advances
  moves to the next slide, and after \<open>N\<close> advances playback has stopped, the index is 0
  again and no timer is held.
\<close>

theorem playback_returns_to_idle:
  assumes "playing_at 0 s" and "slides s \<noteq> []"
  shows "(\<forall>k < length (slides s). playing_at k ((timer_advance ^^ k) s))
     \<and> \<not> isPlaying ((timer_advance ^^ length (slides s)) s)
     \<and> currentSlideIndex ((timer_advance ^^ length (slides s)) s) = 0
     \<and> timeoutRef ((timer_advance ^^ length (slides s)) s) = None"
proof -
  obtain n where n: "length (slides s) = Suc n"
    using assms(2) by (cases "slides s") auto
  have "playing_at n ((timer_advance ^^ n) s)" "slides ((timer_advance ^^ n) s) = slides s"
    using advance_many[OF assms(1), of n] n by simp_all
  then have "\<not> isPlaying ((timer_advance ^^ Suc n) s)
     \<and> currentSlideIndex ((timer_advance ^^ Suc n) s) = 0
     \<and> timeoutRef ((timer_advance ^^ Suc n) s) = None"
    using advance_last[of n "(timer_advance ^^ n) s"] n by simp
  then show ?thesis using advance_many[OF assms(1)] n by simp
qed


theorem playback_returns_to_idle_witness:
  "playing_at 0 (handleGenerate (mounted\<lparr>inputText := ''A\<newline>B\<newline>\<newline>C''\<rparr>))
   \<and> \<not> isPlaying ((timer_advance ^^ 3) (handleGenerate (mounted\<lparr>inputText := ''A\<newline>B\<newline>\<newline>C''\<rparr>)))
   \<and> currentSlideIndex
        ((timer_advance ^^ 3) (handleGenerate (mounted\<lparr>inputText := ''A\<newline>B\<newline>\<newline>C''\<rparr>))) = 0"
proof -
  let ?s = "mounted\<lparr>inputText := ''A\<newline>B\<newline>\<newline>C''\<rparr>"
  have g: "generatedSlides (inputText ?s) = [''A'', ''B'', ''C'']"
    using generatedSlides_example by (simp add: mounted_def)
  then have h: "slides (handleGenerate ?s) = [''A'', ''B'', ''C'']" "playing_at 0 (handleGenerate ?s)"
    using handleGenerate_slides[of ?s] by (simp_all add: mounted_def)
  then have a: "slides (handleGenerate ?s) \<noteq> []" and c: "length (slides (handleGenerate ?s)) = 3"
    by simp_all
  show ?thesis using playback_returns_to_idle[OF h(2) a] h(2) unfolding c by simp
qed

subsection \<open>Session controller\<close>

lemma submit_accepted:
  assumes "trim (inputMessage s) \<noteq> []" "\<not> sending s"
  shows "\<exists>u s1. submit clk s = Some (s1, trim (inputMessage s), chatHistory s @ [u], userName s)
     \<and> chatHistory s1 = chatHistory s @ [u] \<and> sending s1
     \<and> sender u = User \<and> text' u = trim (inputMessage s)"
  using assms by (simp add: submit_def Let_def)

lemma settle_appends:
  "\<exists>a. chatHistory (settle clk awaited prev) = chatHistory prev @ [a] \<and> sender a = Bhaii
     \<and> \<not> sending (settle clk awaited prev)"
  by (cases awaited) (simp_all add: settle_def Let_def)

lemma send_grows_by_two:
  assumes "trim (inputMessage s) \<noteq> []" and "\<not> sending s"
  shows "\<exists>u a. chatHistory (handleSendMessage gateway clk s) = chatHistory s @ [u, a]
     \<and> sender u = User \<and> text' u = trim (inputMessage s) \<and> sender a = Bhaii
     \<and> length (chatHistory (handleSendMessage gateway clk s)) = length (chatHistory s) + 2
     \<and> \<not> sending (handleSendMessage gateway clk s)"
proof -
  from submit_accepted[OF assms, of clk] obtain u s1 where
    s: "submit clk s = Some (s1, trim (inputMessage s), chatHistory s @ [u], userName s)"
    and u: "chatHistory s1 = chatHistory s @ [u]" "sender u = User"
      "text' u = trim (inputMessage s)"
    by blast
  define r where "r = gateway (trim (inputMessage s)) (chatHistory s @ [u]) (userName s)"
  have h: "handleSendMessage gateway clk s = settle clk r s1"
    by (simp add: handleSendMessage_def s r_def)
  from settle_appends[of clk r s1] obtain a where
    "chatHistory (settle clk r s1) = chatHistory s1 @ [a]" "sender a = Bhaii"
    "\<not> sending (settle clk r s1)"
    by blast
  then show ?thesis using u h by simp
qed

lemma type_and_send_grows:
  assumes "trim (snd (snd sub)) \<noteq> []" and "\<not> sending s"
  shows "length (chatHistory (type_and_send sub s)) = length (chatHistory s) + 2
     \<and> \<not> sending (type_and_send sub s)"
proof -
  obtain gateway clk typed where sub: "sub = (gateway, clk, typed)" by (cases sub) auto
  let ?s = "s\<lparr>inputMessage := typed\<rparr>"
  have "trim (inputMessage ?s) \<noteq> []" "\<not> sending ?s" using assms sub by simp_all
  from send_grows_by_two[OF this, of gateway clk] show ?thesis
    by (auto simp: type_and_send_def sub)
qed

lemma submissions_grow:
  assumes "\<forall>sub \<in> set subs. trim (snd (snd sub)) \<noteq> []" and "\<not> sending s"
  shows "length (chatHistory (fold type_and_send subs s)) = length (chatHistory s) + 2 * length subs
     \<and> \<not> sending (fold type_and_send subs s)"
  using assms
proof (induction subs arbitrary: s)
  case Nil
  then show ?case by simp
next
  case (Cons sub subs)
  then have "length (chatHistory (type_and_send sub s)) = length (chatHistory s) + 2"
    "\<not> sending (type_and_send sub s)"
    using type_and_send_grows[of sub s] by simp_all
  then show ?case using Cons.IH[of "type_and_send sub s"] Cons.prems(1) by simp
qed

text \<open>
  C1. A submission that the handler accepts (the trimmed input is not empty and no
  request is in flight) leaves the transcript as it was, followed by the user's
  message and then by exactly one message of the assistant, whatever the awaited
  gateway call does (returns a text, returns an error, throws); the busy flag is
  cleared again. So any sequence of accepted submissions adds two messages each.
\<close>

theorem transcript_grows_by_two:
  "(trim (inputMessage s) \<noteq> [] \<and> \<not> sending s \<longrightarrow>
      (\<exists>u a. chatHistory (handleSendMessage gateway clk s) = chatHistory s @ [u, a]
         \<and> sender u = User \<and> text' u = trim (inputMessage s) \<and> sender a = Bhaii)
      \<and> length (chatHistory (handleSendMessage gateway clk s)) = length (chatHistory s) + 2
      \<and> \<not> sending (handleSendMessage gateway clk s))
   \<and> ((\<forall>sub \<in> set subs. trim (snd (snd sub)) \<noteq> []) \<and> \<not> sending s \<longrightarrow>
      length (chatHistory (fold type_and_send subs s)) = length (chatHistory s) + 2 * length subs)"
  using send_grows_by_two[of s gateway clk] submissions_grow[of subs s] by blast

theorem transcript_grows_by_two_witness:
  "trim (inputMessage asha) \<noteq> [] \<and> \<not> sending asha
   \<and> length (chatHistory (handleSendMessage (\<lambda>m h n. fst (chatWithBhaii offline m h n)) noon asha)) = 2
   \<and> length (chatHistory (fold type_and_send
        [(\<lambda>m h n. Returns \<lparr>reply_text = ''Namaste'', reply_error = None\<rparr>, noon, ''hi''),
         (\<lambda>m h n. Throws (Error ''boom''), noon, ''again'')] asha)) = 4"
proof -
  have a: "trim (inputMessage asha) \<noteq> [] \<and> \<not> sending asha"
    by (simp add: asha_def trim_def isWhiteSpace_def)
  have b: "\<forall>sub \<in> set [(\<lambda>m h n. Returns \<lparr>reply_text = ''Namaste'', reply_error = None\<rparr>, noon, ''hi''),
         (\<lambda>m h n. Throws (Error ''boom''), noon, ''again'')]. trim (snd (snd sub)) \<noteq> []"
    by (simp add: trim_def isWhiteSpace_def)
  have c: "chatHistory asha = []" by (simp add: asha_def)
  show ?thesis
    using transcript_grows_by_two[of asha "\<lambda>m h n. fst (chatWithBhaii offline m h n)" noon
        "[(\<lambda>m h n. Returns \<lparr>reply_text = ''Namaste'', reply_error = None\<rparr>, noon, ''hi''),
         (\<lambda>m h n. Throws (Error ''boom''), noon, ''again'')]"] a b c
    by simp
qed

text \<open>
  C9. When the chat gateway returns a result with an empty text and no error, the
  message the handler appends for the assistant carries the fixed fallback text.
\<close>

theorem empty_result_is_an_error:
  assumes "trim (inputMessage s) \<noteq> []" and "\<not> sending s"
    and "\<forall>m h n. gateway m h n = Returns \<lparr>reply_text = '''', reply_error = None\<rparr>"
  shows "text' (last (chatHistory (handleSendMessage gateway clk s))) = ''Oops, kuch error ho gaya.''
     \<and> sender (last (chatHistory (handleSendMessage gateway clk s))) = Bhaii
     \<and> length (chatHistory (handleSendMessage gateway clk s)) = length (chatHistory s) + 2"
  using assms by (simp add: handleSendMessage_def submit_def settle_def Let_def)

theorem empty_result_is_an_error_witness:
  "fst (chatWithBhaii quiet ''hello'' [] ''Asha'') = Returns \<lparr>reply_text = [], reply_error = None\<rparr>
   \<and> text' (last (chatHistory (handleSendMessage
        (\<lambda>m h n. fst (chatWithBhaii quiet m h n)) noon asha)))
     = ''Oops, kuch error ho gaya.''"
proof -
  have a: "trim (inputMessage asha) \<noteq> []" "\<not> sending asha"
    by (simp_all add: asha_def trim_def isWhiteSpace_def)
  have g: "fst (chatWithBhaii quiet m h n) = Returns \<lparr>reply_text = [], reply_error = None\<rparr>"
    for m h n
    by (simp add: chatWithBhaii_def chat_try_def chat_send_def chat_catch_def getGeminiClient_def
        quiet_def offline_def fullText_def trim_def)
  then have "\<forall>m h n. fst (chatWithBhaii quiet m h n)
      = Returns \<lparr>reply_text = [], reply_error = None\<rparr>"
    by simp
  from empty_result_is_an_error[OF a this, of noon] g show ?thesis
    by simp
qed

subsection \<open>Gateway: the role-tagged transcript\<close>

text \<open>
  C2, as stated, fails: a turn of the assistant is tagged \<open>model\<close>, not \<open>assistant\<close>.
\<close>

theorem assistant_role_counterexample:
  "map role (formattedHistory [question, greeting]) = [''user'', ''model'']
   \<and> role (formattedHistory [question, greeting] ! 1) \<noteq> ''assistant''"
  by (simp add: formattedHistory_def question_def greeting_def)

text \<open>
  C2, amended. The transcript built for the model has one unit per prior turn, in
  order: a turn of the user is tagged \<open>user\<close>, a turn of the assistant is tagged
  \<open>model\<close>, and the unit's only part is the turn's text. With a key configured, the one
  request issued carries exactly this transcript.
\<close>

theorem history_is_role_tagged:
  "length (formattedHistory history) = length history
   \<and> (\<forall>i < length history.
        (sender (history ! i) = User \<longrightarrow> role (formattedHistory history ! i) = ''user'')
        \<and> (sender (history ! i) = Bhaii \<longrightarrow> role (formattedHistory history ! i) = ''model'')
        \<and> parts (formattedHistory history ! i) = [text' (history ! i)])
   \<and> (getGeminiClient e = Returns k \<longrightarrow>
        (\<exists>rest. snd (chatWithBhaii e msg history name)
          = Sent_chat (Chat_call CHAT_MODEL_NAME BHAI_SYSTEM_INSTRUCTION
               (formattedHistory history) (personalizedMessage name msg)) # rest))"
proof -
  have "sender m = Bhaii \<longrightarrow> sender m \<noteq> User" for m :: ChatMessage by simp
  then have a: "\<forall>i < length history.
        (sender (history ! i) = User \<longrightarrow> role (formattedHistory history ! i) = ''user'')
        \<and> (sender (history ! i) = Bhaii \<longrightarrow> role (formattedHistory history ! i) = ''model'')
        \<and> parts (formattedHistory history ! i) = [text' (history ! i)]"
    by (simp add: formattedHistory_def)
  have b: "getGeminiClient e = Returns k \<longrightarrow>
        (\<exists>rest. snd (chatWithBhaii e msg history name)
          = Sent_chat (Chat_call CHAT_MODEL_NAME BHAI_SYSTEM_INSTRUCTION
               (formattedHistory history) (personalizedMessage name msg)) # rest)"
    by (auto simp: chatWithBhaii_def chat_try_def chat_send_def chat_catch_def Let_def
        split: outcome.splits)
  show ?thesis using a b by (simp add: formattedHistory_def)
qed

theorem history_is_role_tagged_witness:
  "formattedHistory [greeting, question]
     = [\<lparr>role = ''model'', parts = [''Namaste! Kya haal hai, mere bhai/behen? Kaise ho tum?'']\<rparr>,
        \<lparr>role = ''user'', parts = [''Kya chal raha hai?'']\<rparr>]
   \<and> hd (snd (chatWithBhaii offline ''hi'' [greeting, question] ''Asha''))
     = Sent_chat (Chat_call CHAT_MODEL_NAME BHAI_SYSTEM_INSTRUCTION
               (formattedHistory [greeting, question]) ''Asha says: hi'')"
proof -
  have k: "getGeminiClient offline = Returns ''key''"
    by (simp add: getGeminiClient_def offline_def)
  have p: "personalizedMessage ''Asha'' ''hi'' = ''Asha says: hi''"
    by (simp add: personalizedMessage_def)
  have s: "sender ([greeting, question] ! 0) = Bhaii" "sender ([greeting, question] ! 1) = User"
    "text' ([greeting, question] ! 0) = ''Namaste! Kya haal hai, mere bhai/behen? Kaise ho tum?''"
    "text' ([greeting, question] ! 1) = ''Kya chal raha hai?''"
    by (simp_all add: greeting_def question_def)
  from history_is_role_tagged[of "[greeting, question]" offline "''key''" "''hi''" "''Asha''"]
  have l: "length (formattedHistory [greeting, question]) = 2"
    and r0: "role (formattedHistory [greeting, question] ! 0) = ''model''"
    and r1: "role (formattedHistory [greeting, question] ! 1) = ''user''"
    and p0: "parts (formattedHistory [greeting, question] ! 0) = [text' ([greeting, question] ! 0)]"
    and p1: "parts (formattedHistory [greeting, question] ! 1) = [text' ([greeting, question] ! 1)]"
    and c: "hd (snd (chatWithBhaii offline ''hi'' [greeting, question] ''Asha''))
     = Sent_chat (Chat_call CHAT_MODEL_NAME BHAI_SYSTEM_INSTRUCTION
               (formattedHistory [greeting, question]) ''Asha says: hi'')"
    using k p s by auto
  obtain a b where ab: "formattedHistory [greeting, question] = [a, b]"
    using l by (auto simp: length_Suc_conv numeral_2_eq_2)
  have "a = \<lparr>role = ''model'', parts = [''Namaste! Kya haal hai, mere bhai/behen? Kaise ho tum?'']\<rparr>"
    using r0 p0 s ab by (cases a) simp
  moreover have "b = \<lparr>role = ''user'', parts = [''Kya chal raha hai?'']\<rparr>"
    using r1 p1 s ab by (cases b) simp
  ultimately show ?thesis using ab c by simp
qed

subsection \<open>Gateway: generic remote failures\<close>

text \<open>
  C5, as stated, fails for image generation: the error it returns holds the message of
  the thrown error.
\<close>

theorem generic_failure_counterexample:
  "fst (generateHDImageWithGemini offline ''a cat'' Ratio_1_1)
     = Returns \<lparr>imageUrl = None, image_error = Some ''Failed to generate HD image: socket hang up''\<rparr>
   \<and> fst (hd_try offline ''a cat'' Ratio_1_1) = Throws (Error ''socket hang up'')
   \<and> \<not> includes_sub ''socket hang up'' ''Requested entity was not found.''
   \<and> includes_sub ''Failed to generate HD image: socket hang up'' ''socket hang up''"
  by (simp add: generateHDImageWithGemini_def hd_try_def hd_catch_def offline_def
      getGeminiClient_def trim_def isWhiteSpace_def Let_def)

lemma chat_generic_failure:
  assumes "fst (chat_try e msg history name) = Throws err"
    and "\<not> includes_sub (message err) ''Requested entity was not found''"
  shows "fst (chatWithBhaii e msg history name)
          = Returns \<lparr>reply_text = '''',
              reply_error = Some ''Sorry, kuch gadbad ho gayi. Can you please try again?''\<rparr>
        \<and> last (snd (chatWithBhaii e msg history name))
          = Console_error ''Error chatting with Bhaii:'' (Logged_error err)"
proof -
  obtain evs where "chat_try e msg history name = (Throws err, evs)"
    using assms(1) by (cases "chat_try e msg history name") simp
  then show ?thesis using assms(2) by (simp add: chatWithBhaii_def chat_catch_def)
qed

lemma edit_generic_failure:
  assumes "fst (edit_try e imageFile prompt) = Throws err"
    and "\<not> includes_sub (message err) ''Requested entity was not found''"
  shows "fst (editImageWithGemini e imageFile prompt)
          = Returns \<lparr>imageUrl = None,
              image_error = Some ''Failed to edit image. Network issue or invalid prompt?''\<rparr>
        \<and> last (snd (editImageWithGemini e imageFile prompt))
          = Console_error ''Error editing image with Gemini:'' (Logged_error err)"
proof -
  obtain evs where "edit_try e imageFile prompt = (Throws err, evs)"
    using assms(1) by (cases "edit_try e imageFile prompt") simp
  then show ?thesis using assms(2) by (simp add: editImageWithGemini_def edit_catch_def)
qed

lemma hd_generic_failure:
  assumes "fst (hd_try e prompt ratio) = Throws err"
    and "\<not> includes_sub (message err) ''Requested entity was not found.''"
  shows "fst (generateHDImageWithGemini e prompt ratio)
          = Returns \<lparr>imageUrl = None,
              image_error = Some (''Failed to generate HD image: ''
                @ (if message err \<noteq> [] then message err else ''Unknown error''))\<rparr>
        \<and> last (snd (generateHDImageWithGemini e prompt ratio))
          = Console_error ''Error generating HD image with Gemini:'' (Logged_error err)"
proof -
  obtain evs where "hd_try e prompt ratio = (Throws err, evs)"
    using assms(1) by (cases "hd_try e prompt ratio") simp
  then show ?thesis using assms(2) by (simp add: generateHDImageWithGemini_def hd_catch_def)
qed

text \<open>
  C5, amended. When the \<^verbatim>\<open>try\<close> block of a gateway operation throws an error whose
  message does not hold the entity-not-found text, the error is logged, and the chat
  operation returns its fixed line, image editing returns its fixed line, and image
  generation returns \<open>Failed to generate HD image: \<close> followed by the message of the
  error (\<open>Unknown error\<close> when it has none).
\<close>

theorem generic_failure_messages:
  "(fst (chat_try e msg history name) = Throws err
      \<and> \<not> includes_sub (message err) ''Requested entity was not found''
    \<longrightarrow> fst (chatWithBhaii e msg history name)
          = Returns \<lparr>reply_text = '''',
              reply_error = Some ''Sorry, kuch gadbad ho gayi. Can you please try again?''\<rparr>
        \<and> last (snd (chatWithBhaii e msg history name))
          = Console_error ''Error chatting with Bhaii:'' (Logged_error err))
   \<and> (fst (edit_try e imageFile prompt) = Throws err
      \<and> \<not> includes_sub (message err) ''Requested entity was not found''
    \<longrightarrow> fst (editImageWithGemini e imageFile prompt)
          = Returns \<lparr>imageUrl = None,
              image_error = Some ''Failed to edit image. Network issue or invalid prompt?''\<rparr>
        \<and> last (snd (editImageWithGemini e imageFile prompt))
          = Console_error ''Error editing image with Gemini:'' (Logged_error err))
   \<and> (fst (hd_try e hdPrompt ratio) = Throws err
      \<and> \<not> includes_sub (message err) ''Requested entity was not found.''
    \<longrightarrow> fst (generateHDImageWithGemini e hdPrompt ratio)
          = Returns \<lparr>imageUrl = None,
              image_error = Some (''Failed to generate HD image: ''
                @ (if message err \<noteq> [] then message err else ''Unknown error''))\<rparr>
        \<and> last (snd (generateHDImageWithGemini e hdPrompt ratio))
          = Console_error ''Error generating HD image with Gemini:'' (Logged_error err))"
  using chat_generic_failure[of e msg history name err]
    edit_generic_failure[of e imageFile prompt err]
    hd_generic_failure[of e hdPrompt ratio err]
  by blast

theorem generic_failure_messages_witness:
  "fst (chatWithBhaii offline ''hi'' [] ''Asha'')
     = Returns \<lparr>reply_text = '''',
              reply_error = Some ''Sorry, kuch gadbad ho gayi. Can you please try again?''\<rparr>
   \<and> fst (editImageWithGemini offline photo ''make it blue'')
     = Returns \<lparr>imageUrl = None,
              image_error = Some ''Failed to edit image. Network issue or invalid prompt?''\<rparr>
   \<and> fst (generateHDImageWithGemini offline ''a cat'' Ratio_16_9)
     = Returns \<lparr>imageUrl = None,
              image_error = Some ''Failed to generate HD image: socket hang up''\<rparr>"
proof -
  have k: "getGeminiClient offline = Returns ''key''"
    by (simp add: getGeminiClient_def offline_def)
  have a: "fst (chat_try offline ''hi'' [] ''Asha'') = Throws (Error ''socket hang up'')"
    by (simp add: chat_try_def chat_send_def k Let_def) (simp add: offline_def)
  have b: "fst (edit_try offline photo ''make it blue'') = Throws (Error ''socket hang up'')"
    by (simp add: edit_try_def blobToBase64_def k Let_def) (simp add: offline_def)
  have c: "fst (hd_try offline ''a cat'' Ratio_16_9) = Throws (Error ''socket hang up'')"
    by (simp add: hd_try_def k Let_def trim_def isWhiteSpace_def) (simp add: offline_def)
  have n: "\<not> includes_sub (message (Error ''socket hang up'')) ''Requested entity was not found''"
    "\<not> includes_sub (message (Error ''socket hang up'')) ''Requested entity was not found.''"
    by simp_all
  show ?thesis
    using generic_failure_messages[of offline "''hi''" "[]" "''Asha''" "Error ''socket hang up''"
        photo "''make it blue''" "''a cat''" Ratio_16_9] a b c n
    by simp
qed

subsection \<open>Gateway: blank prompts\<close>

text \<open>
  C8. For a prompt of white space only (the empty prompt too) and any aspect ratio, image
  generation returns a result with its error set and no image, and issues no remote
  call.
\<close>

theorem blank_prompt_is_refused:
  assumes "\<forall>c \<in> set prompt. isWhiteSpace c"
  shows "(\<exists>err. fst (generateHDImageWithGemini e prompt ratio)
            = Returns \<lparr>imageUrl = None, image_error = Some err\<rparr>)
     \<and> filter is_remote_call (snd (generateHDImageWithGemini e prompt ratio)) = []"
proof -
  have t: "trim prompt = []" using assms by (simp add: trim_empty_iff)
  show ?thesis
  proof (cases "getGeminiClient e")
    case (Returns k)
    then show ?thesis
      by (simp add: generateHDImageWithGemini_def hd_try_def hd_catch_def t)
  next
    case (Throws x)
    then have x: "x = Error ''API_KEY is not set. Please ensure it is configured in your environment.''"
      by (auto simp: getGeminiClient_def split: option.splits if_splits)
    show ?thesis
      by (simp add: generateHDImageWithGemini_def hd_try_def hd_catch_def Throws x)
  qed
qed

theorem blank_prompt_is_refused_witness:
  "generateHDImageWithGemini offline ''  \<newline> '' Ratio_4_3
     = (Returns \<lparr>imageUrl = None,
          image_error = Some ''Please provide a text prompt for image generation.''\<rparr>, [])"
proof -
  have a: "\<forall>c \<in> set ''  \<newline> ''. isWhiteSpace c" by (simp add: isWhiteSpace_def)
  have "trim ''  \<newline> '' = []" by (simp add: trim_def isWhiteSpace_def)
  then have "generateHDImageWithGemini offline ''  \<newline> '' Ratio_4_3
     = (Returns \<lparr>imageUrl = None,
          image_error = Some ''Please provide a text prompt for image generation.''\<rparr>, [])"
    by (simp add: generateHDImageWithGemini_def hd_try_def hd_catch_def getGeminiClient_def
        offline_def)
  then show ?thesis using blank_prompt_is_refused[OF a, of offline Ratio_4_3] by simp
qed

subsection \<open>Gateway: the prior turns are only read\<close>

lemma read_message_alloc:
  "read_message (st @ [Content_array cs]) a = read_message st a"
  by (auto simp: read_message_def nth_append)

lemma read_history_alloc:
  "read_history (st @ [Content_array cs]) a = read_history st a"
proof -
  have m: "map (read_message (st @ [Content_array cs])) refs = map (read_message st) refs" for refs
    by (simp add: read_message_alloc)
  show ?thesis by (auto simp: read_history_def nth_append m split: cell.splits)
qed

lemma store_after_chat:
  "snd (chatWithBhaii_store e msg history name st) = st
   \<or> (\<exists>msgs. read_history st history = Some msgs
         \<and> snd (chatWithBhaii_store e msg history name st)
             = st @ [Content_array (formattedHistory msgs)])"
  by (auto simp: chatWithBhaii_store_def history_map_def split: outcome.splits option.splits)

lemma chat_store_refines:
  assumes "read_history st history = Some msgs"
  shows "fst (chatWithBhaii_store e msg history name st) = chatWithBhaii e msg msgs name"
  using assms
  by (auto simp: chatWithBhaii_store_def history_map_def chatWithBhaii_def chat_try_def
      read_contents_def split: outcome.splits)

text \<open>
  C10. The chat operation only reads the prior turns. Every cell the store held before
  the call holds the same value after it: the array \<open>history\<close> refers to lists the same
  messages in the same order, and every message is as it was. The only change is at most
  one allocation, the role-tagged transcript, at an address that was not in use. On the
  messages read through \<open>history\<close> the operation returns what the operation over values
  returns.
\<close>

theorem history_is_left_unchanged:
  "take (length st) (snd (chatWithBhaii_store e msg history name st)) = st
   \<and> read_history (snd (chatWithBhaii_store e msg history name st)) history
       = read_history st history
   \<and> (\<forall>a. read_message (snd (chatWithBhaii_store e msg history name st)) a = read_message st a)
   \<and> (snd (chatWithBhaii_store e msg history name st) = st
       \<or> (\<exists>msgs. read_history st history = Some msgs
             \<and> snd (chatWithBhaii_store e msg history name st)
                 = st @ [Content_array (formattedHistory msgs)]))
   \<and> (read_history st history = Some msgs
       \<longrightarrow> fst (chatWithBhaii_store e msg history name st) = chatWithBhaii e msg msgs name)"
proof -
  let ?st' = "snd (chatWithBhaii_store e msg history name st)"
  from store_after_chat[of e msg history name st]
  consider "?st' = st" | cs where "?st' = st @ [Content_array cs]" by blast
  then have "take (length st) ?st' = st
     \<and> read_history ?st' history = read_history st history
     \<and> (\<forall>a. read_message ?st' a = read_message st a)"
    by cases (simp_all add: read_history_alloc read_message_alloc)
  then show ?thesis
    using store_after_chat[of e msg history name st] chat_store_refines[of st history msgs e msg name]
    by blast
qed

theorem history_is_left_unchanged_witness:
  "read_history [Message_cell greeting, Message_cell question, Message_array [0, 1]] 2
     = Some [greeting, question]
   \<and> snd (chatWithBhaii_store offline ''hi'' 2 ''Asha''
        [Message_cell greeting, Message_cell question, Message_array [0, 1]])
     = [Message_cell greeting, Message_cell question, Message_array [0, 1],
        Content_array (formattedHistory [greeting, question])]
   \<and> fst (chatWithBhaii_store offline ''hi'' 2 ''Asha''
        [Message_cell greeting, Message_cell question, Message_array [0, 1]])
     = chatWithBhaii offline ''hi'' [greeting, question] ''Asha''"
proof -
  let ?st = "[Message_cell greeting, Message_cell question, Message_array [0, 1]]"
  have r: "read_history ?st 2 = Some [greeting, question]"
    by (simp add: read_history_def read_message_def)
  have s: "snd (chatWithBhaii_store offline ''hi'' 2 ''Asha'' ?st)
     = ?st @ [Content_array (formattedHistory [greeting, question])]"
  proof -
    have hm: "history_map ?st 2
        = Returns (length ?st, ?st @ [Content_array (formattedHistory [greeting, question])])"
      unfolding history_map_def r by simp
    have k: "getGeminiClient offline = Returns ''key''"
      by (simp add: getGeminiClient_def offline_def)
    show ?thesis unfolding chatWithBhaii_store_def hm k by simp
  qed
  show ?thesis
    using history_is_left_unchanged[of ?st offline "''hi''" 2 "''Asha''" "[greeting, question]"] r s
    by simp
qed

subsection \<open>Dates as text: parsing what was printed\<close>

lemma digit_value_digit: "d < 10 \<Longrightarrow> digit_value (digit d) = Some d"
proof -
  assume "d < 10"
  then have "d = 0 \<or> d = 1 \<or> d = 2 \<or> d = 3 \<or> d = 4 \<or> d = 5 \<or> d = 6 \<or> d = 7 \<or> d = 8 \<or> d = 9"
    by arith
  then show ?thesis by (elim disjE) (simp_all add: digit_def digit_value_def)
qed

lemma digit_not_sign: "d < 10 \<Longrightarrow> digit d \<noteq> CHR ''+'' \<and> digit d \<noteq> CHR ''-''"
proof -
  assume "d < 10"
  then have "d = 0 \<or> d = 1 \<or> d = 2 \<or> d = 3 \<or> d = 4 \<or> d = 5 \<or> d = 6 \<or> d = 7 \<or> d = 8 \<or> d = 9"
    by arith
  then show ?thesis by (elim disjE) (simp_all add: digit_def)
qed

lemma length_pad [simp]: "length (pad w n) = w"
  by (induction w arbitrary: n) simp_all

lemma number_append:
  "number acc (xs @ ys) = Option.bind (number acc xs) (\<lambda>a. number a ys)"
  by (induction xs arbitrary: acc) (simp_all split: option.splits)

lemma number_pad: "n < 10 ^ w \<Longrightarrow> number acc (pad w n) = Some (acc * 10 ^ w + n)"
proof (induction w arbitrary: n acc)
  case 0
  then show ?case by simp
next
  case (Suc w)
  then have "n div 10 < 10 ^ w" by (simp add: less_mult_imp_div_less mult.commute)
  then have "number acc (pad w (n div 10)) = Some (acc * 10 ^ w + n div 10)"
    by (rule Suc.IH)
  then show ?case
    by (simp add: number_append digit_value_digit algebra_simps)
qed

lemma digits_pad: "n < 10 ^ w \<Longrightarrow> digits w (pad w n @ r) = Some (n, r)"
  by (simp add: digits_def number_pad)

lemma field_pad: "n < 10 ^ w \<Longrightarrow> field c w (c # pad w n @ r) = Some (n, r)"
  by (simp add: field_def expect_def digits_pad)

lemma pad_Suc_hd: "\<exists>d r. d < 10 \<and> pad (Suc w) n = digit d # r"
proof (induction w arbitrary: n)
  case 0
  show ?case by (rule exI[of _ "n mod 10"]) simp
next
  case (Suc w)
  from Suc[of "n div 10"] obtain d r where "d < 10" "pad (Suc w) (n div 10) = digit d # r"
    by blast
  then show ?case by (intro exI[of _ d] exI[of _ "r @ [digit (n mod 10)]"]) simp
qed

lemma read_year_plain:
  assumes "0 \<le> y" "y \<le> 9999"
  shows "read_year (pad 4 (nat y) @ r) = Some (y, r)"
proof -
  obtain d r' where d: "d < 10" "pad 4 (nat y) = digit d # r'"
    using pad_Suc_hd[of 3 "nat y"] by auto
  have n: "nat y < 10 ^ 4" using assms by simp
  have s: "digit d \<noteq> CHR ''+''" "digit d \<noteq> CHR ''-''"
    using digit_not_sign[OF d(1)] by simp_all
  have "read_year (digit d # r' @ r)
      = map_option (\<lambda>(n, r'). (int n, r')) (digits 4 (digit d # r' @ r))"
    unfolding read_year_def using s by simp
  then have "read_year (pad 4 (nat y) @ r)
      = map_option (\<lambda>(n, r'). (int n, r')) (digits 4 (pad 4 (nat y) @ r))"
    using d(2) by simp
  also have "\<dots> = Some (y, r)"
    unfolding digits_pad[OF n] using assms by simp
  finally show ?thesis .
qed

lemma read_year_signed:
  assumes "n < 10 ^ 6"
  shows "read_year (CHR ''+'' # pad 6 n @ r) = Some (int n, r)"
    and "read_year (CHR ''-'' # pad 6 n @ r) = Some (- int n, r)"
  unfolding read_year_def using digits_pad[OF assms, of r] by simp_all

lemma read_year_text:
  assumes "- 1000000 < y" "y < 1000000"
  shows "read_year (year_text y @ r) = Some (y, r)"
proof -
  have n: "nat \<bar>y\<bar> < 10 ^ 6" using assms by simp
  consider "0 \<le> y \<and> y \<le> 9999" | "y < 0" | "9999 < y" by linarith
  then show ?thesis
  proof cases
    case 1
    then show ?thesis using read_year_plain[of y r] by (simp add: year_text_def)
  next
    case 2
    then show ?thesis using read_year_signed(2)[OF n, of r] by (simp add: year_text_def)
  next
    case 3
    then show ?thesis using read_year_signed(1)[OF n, of r] by (simp add: year_text_def)
  qed
qed

lemma div_bounds:
  fixes a k :: int
  assumes "0 < k"
  shows "k * (a div k) \<le> a" and "a < k * (a div k) + k"
proof -
  have e: "a = k * (a div k) + a mod k" by simp
  have "0 \<le> a mod k" "a mod k < k" using assms by simp_all
  then show "k * (a div k) \<le> a" and "a < k * (a div k) + k" using e by linarith+
qed

lemma year_estimate_low:
  fixes d :: int
  defines "q \<equiv> (400 * d) div 146097"
  shows "DayFromYear (1970 + q - 1) \<le> d"
proof -
  have q: "146097 * q \<le> 400 * d" unfolding q_def by (rule div_bounds) simp
  define a where "a = q div 4"
  define b where "b = (q + 68) div 100"
  define c where "c = (q + 368) div 400"
  have a: "4 * a \<le> q" unfolding a_def by (rule div_bounds) simp
  have b: "q + 68 < 100 * b + 100" unfolding b_def by (rule div_bounds) simp
  have c: "400 * c \<le> q + 368" unfolding c_def by (rule div_bounds) simp
  have e: "DayFromYear (1970 + q - 1) = 365 * (q - 1) + a - b + c"
    by (simp add: DayFromYear_def a_def b_def c_def add.commute)
  have "400 * (365 * (q - 1) + a - b + c) \<le> 400 * d"
    using q a b c by (simp add: algebra_simps)
  then show ?thesis unfolding e by simp
qed

lemma year_estimate_high:
  fixes d :: int
  defines "q \<equiv> (400 * d) div 146097"
  shows "d < DayFromYear (1970 + q + 2)"
proof -
  have q: "400 * d < 146097 * q + 146097" unfolding q_def by (rule div_bounds) simp
  define a where "a = (q + 3) div 4"
  define b where "b = (q + 71) div 100"
  define c where "c = (q + 371) div 400"
  have a: "q + 3 < 4 * a + 4" unfolding a_def by (rule div_bounds) simp
  have b: "100 * b \<le> q + 71" unfolding b_def by (rule div_bounds) simp
  have c: "q + 371 < 400 * c + 400" unfolding c_def by (rule div_bounds) simp
  have e: "DayFromYear (1970 + q + 2) = 365 * (q + 2) + a - b + c"
    by (simp add: DayFromYear_def a_def b_def c_def add.commute)
  have "400 * d < 400 * (365 * (q + 2) + a - b + c)"
    using q a b c by (simp add: algebra_simps)
  then show ?thesis unfolding e by simp
qed

lemma year_bracket:
  "DayFromYear (YearFromDay d) \<le> d \<and> d < DayFromYear (YearFromDay d + 1)"
  using year_estimate_low[of d] year_estimate_high[of d]
  by (auto simp: YearFromDay_def Let_def algebra_simps)

lemma div_succ:
  fixes x k :: int
  assumes "0 < k"
  shows "(x + 1) div k \<le> x div k + 1"
proof -
  have "(x + 1) div k \<le> (x + k) div k" using assms by (intro zdiv_mono1) simp_all
  also have "\<dots> = x div k + 1" using assms by (intro div_add_self2) simp
  finally show ?thesis .
qed

lemma year_length: "DayFromYear (y + 1) - DayFromYear y \<le> 367"
proof -
  have a: "(y - 1968) div 4 \<le> (y - 1969) div 4 + 1" using div_succ[of 4 "y - 1969"] by simp
  have b: "(y - 1901) div 100 \<le> (y - 1900) div 100" by (rule zdiv_mono1) simp_all
  have c: "(y - 1600) div 400 \<le> (y - 1601) div 400 + 1" using div_succ[of 400 "y - 1601"] by simp
  show ?thesis using a b c by (simp add: DayFromYear_def)
qed

lemma year_printable:
  assumes "- 100000000 \<le> d" "d \<le> 100000000"
  shows "- 1000000 < YearFromDay d \<and> YearFromDay d < 1000000"
proof -
  define q where "q = (400 * d) div 146097"
  have "146097 * q \<le> 400 * d" "400 * d < 146097 * q + 146097"
    unfolding q_def by (rule div_bounds, simp)+
  then have "- 300000 < q \<and> q < 300000" using assms by simp
  then show ?thesis by (auto simp: YearFromDay_def Let_def q_def[symmetric])
qed

lemma month_of_day:
  assumes "0 \<le> w" "w < 367"
  shows "MonthFromDay leap w \<le> 11
     \<and> month_start leap (MonthFromDay leap w) \<le> w
     \<and> w - month_start leap (MonthFromDay leap w) + 1 < 100"
  using assms by (cases leap) (simp_all add: MonthFromDay_def month_start_def)

lemma time_fields:
  fixes ms :: int
  assumes "0 \<le> ms" "ms < 86400000"
  shows "nat (ms div 3600000) < 10 ^ 2" "nat (ms div 60000 mod 60) < 10 ^ 2"
    "nat (ms div 1000 mod 60) < 10 ^ 2" "nat (ms mod 1000) < 10 ^ 3"
    "0 \<le> ms div 3600000" "0 \<le> ms div 60000 mod 60" "0 \<le> ms div 1000 mod 60" "0 \<le> ms mod 1000"
    "MakeTime (ms div 3600000) (ms div 60000 mod 60) (ms div 1000 mod 60) (ms mod 1000) = ms"
proof -
  show "nat (ms div 3600000) < 10 ^ 2" using assms by simp
  show "nat (ms div 60000 mod 60) < 10 ^ 2"
    using pos_mod_bound[of 60 "ms div 60000"] by simp
  show "nat (ms div 1000 mod 60) < 10 ^ 2"
    using pos_mod_bound[of 60 "ms div 1000"] by simp
  show "nat (ms mod 1000) < 10 ^ 3"
    using pos_mod_bound[of 1000 ms] by simp
  show "0 \<le> ms div 3600000" using assms by (simp add: pos_imp_zdiv_nonneg_iff)
  show "0 \<le> ms div 60000 mod 60" "0 \<le> ms div 1000 mod 60" "0 \<le> ms mod 1000" by simp_all
  have "ms div 3600000 = ms div 60000 div 60"
    using zdiv_zmult2_eq[of 60 ms 60000] by simp
  then have a: "ms div 60000 = 60 * (ms div 3600000) + ms div 60000 mod 60"
    by simp
  have "ms div 60000 = ms div 1000 div 60"
    using zdiv_zmult2_eq[of 60 ms 1000] by simp
  then have b: "ms div 1000 = 60 * (ms div 60000) + ms div 1000 mod 60"
    by simp
  have c: "ms = 1000 * (ms div 1000) + ms mod 1000" by simp
  show "MakeTime (ms div 3600000) (ms div 60000 mod 60) (ms div 1000 mod 60) (ms mod 1000) = ms"
    unfolding MakeTime_def using a b c by linarith
qed

lemma read_fields_text:
  assumes "- 1000000 < y" "y < 1000000" and "mo < 10 ^ 2" "dt < 10 ^ 2" "h < 10 ^ 2"
    "mi < 10 ^ 2" "se < 10 ^ 2" "ms < 10 ^ 3"
  shows "read_fields (date_time_text y mo dt h mi se ms)
     = (if 1 \<le> mo
        then Some (MakeDate (MakeDay y (mo - 1) (int dt))
                     (MakeTime (int h) (int mi) (int se) (int ms)))
        else None)"
  unfolding read_fields_def date_time_text_def append_Cons append_Nil
  by (simp only: read_year_text[OF assms(1,2)] field_pad[OF assms(3)] field_pad[OF assms(4)]
      field_pad[OF assms(5)] field_pad[OF assms(6)] field_pad[OF assms(7)]
      field_pad[OF assms(8)] Option.bind.simps prod.case) simp

lemma read_fields_toISOString:
  assumes "in_range t"
  shows "read_fields (toISOString t) = Some t"
proof -
  define d where "d = Day t"
  define y where "y = YearFromDay d"
  define w where "w = d - DayFromYear y"
  define m where "m = MonthFromDay (InLeapYear y) w"
  define dt where "dt = w - month_start (InLeapYear y) m + 1"
  define ms where "ms = TimeWithinDay t"
  define h where "h = nat (ms div 3600000)"
  define mi where "mi = nat (ms div 60000 mod 60)"
  define se where "se = nat (ms div 1000 mod 60)"
  define msn where "msn = nat (ms mod 1000)"
  define mo where "mo = m + 1"
  define dn where "dn = nat dt"
  have t: "t = d * msPerDay + ms"
    by (simp add: d_def ms_def Day_def TimeWithinDay_def)
  have ms: "0 \<le> ms" "ms < 86400000"
    by (simp_all add: ms_def TimeWithinDay_def msPerDay_def)
  have "- 8640000000000000 \<le> t" "t \<le> 8640000000000000"
    using assms by (simp_all add: in_range_def)
  then have d: "- 100000000 \<le> d" "d \<le> 100000000"
    using div_bounds[of 86400000 t] by (simp_all add: d_def Day_def msPerDay_def)
  have y: "- 1000000 < y" "y < 1000000"
    using year_printable[OF d] by (simp_all add: y_def)
  have "DayFromYear y \<le> d" "d < DayFromYear (y + 1)"
    using year_bracket[of d] by (simp_all add: y_def)
  then have w: "0 \<le> w" "w < 367"
    using year_length[of y] by (simp_all add: w_def)
  have m: "m \<le> 11" "month_start (InLeapYear y) m \<le> w" "dt < 100"
    using month_of_day[OF w, of "InLeapYear y"] by (simp_all add: m_def dt_def)
  then have dt: "int dn = dt" "dn < 10 ^ 2" "mo < 10 ^ 2" "1 \<le> mo" "mo - 1 = m"
    by (simp_all add: dt_def dn_def mo_def)
  note tf = time_fields[OF ms]
  have n: "h < 10 ^ 2" "mi < 10 ^ 2" "se < 10 ^ 2" "msn < 10 ^ 3"
    unfolding h_def mi_def se_def msn_def by (rule tf)+
  have i: "int h = ms div 3600000" "int mi = ms div 60000 mod 60"
    "int se = ms div 1000 mod 60" "int msn = ms mod 1000"
    unfolding h_def mi_def se_def msn_def using tf(5-8) by (simp_all only: nat_0_le)
  have iso: "toISOString t = date_time_text y mo dn h mi se msn"
    by (simp only: toISOString_def Let_def d_def y_def w_def m_def dt_def ms_def h_def mi_def
        se_def msn_def mo_def dn_def)
  have day: "MakeDay y m dt = d"
    by (simp add: MakeDay_def dt_def w_def)
  have "read_fields (toISOString t)
      = Some (MakeDate (MakeDay y (mo - 1) (int dn)) (MakeTime (int h) (int mi) (int se) (int msn)))"
    unfolding iso read_fields_text[OF y dt(3) dt(2) n] using dt(4) by simp
  also have "\<dots> = Some (MakeDate d ms)"
    unfolding dt(1) dt(5) i day tf(9) by (rule refl)
  finally show ?thesis using t by (simp add: MakeDate_def)
qed

lemma iso_parse_toISOString: "in_range t \<Longrightarrow> iso_parse (toISOString t) = Some t"
  by (simp add: iso_parse_def read_fields_toISOString)

lemma Date_parse_toISOString: "in_range t \<Longrightarrow> Date_parse host (toISOString t) = Some t"
  by (simp add: Date_parse_def iso_parse_toISOString)

lemma iso_parse_sound: "iso_parse s = Some t \<Longrightarrow> in_range t \<and> toISOString t = s"
  by (auto simp: iso_parse_def split: option.splits if_splits)

lemma pad_2: "pad 2 n = [digit (n div 10 mod 10), digit (n mod 10)]"
proof -
  have e: "(2::nat) = Suc (Suc 0)" by simp
  show ?thesis unfolding e by simp
qed

lemma pad_3: "pad 3 n = [digit (n div 100 mod 10), digit (n div 10 mod 10), digit (n mod 10)]"
proof -
  have e: "(3::nat) = Suc (Suc (Suc 0))" by simp
  show ?thesis unfolding e by (simp add: div_mult2_eq[symmetric])
qed

lemma pad_4:
  "pad 4 n = [digit (n div 1000 mod 10), digit (n div 100 mod 10), digit (n div 10 mod 10),
              digit (n mod 10)]"
proof -
  have e: "(4::nat) = Suc (Suc (Suc (Suc 0)))" by simp
  show ?thesis unfolding e by (simp add: div_mult2_eq[symmetric])
qed

lemma pad_6:
  "pad 6 n = [digit (n div 100000 mod 10), digit (n div 10000 mod 10), digit (n div 1000 mod 10),
              digit (n div 100 mod 10), digit (n div 10 mod 10), digit (n mod 10)]"
proof -
  have e: "(6::nat) = Suc (Suc (Suc (Suc (Suc (Suc 0)))))" by simp
  show ?thesis unfolding e by (simp add: div_mult2_eq[symmetric])
qed

text \<open>The text of one instant, computed step by step.\<close>

lemma toISOString_example: "toISOString 1700000000123 = ''2023-11-14T22:13:20.123Z''"
proof -
  have d: "Day 1700000000123 = 19675" by (simp add: Day_def msPerDay_def)
  have y: "YearFromDay 19675 = 2023" by (simp add: YearFromDay_def DayFromYear_def Let_def)
  have s: "19675 - DayFromYear 2023 = 317" by (simp add: DayFromYear_def)
  have l: "InLeapYear 2023 = False" by (simp add: InLeapYear_def)
  have m: "MonthFromDay False 317 = 10" by (simp add: MonthFromDay_def month_start_def)
  have b: "317 - month_start False 10 + 1 = 14" by (simp add: month_start_def)
  have w: "TimeWithinDay 1700000000123 = 80000123" by (simp add: TimeWithinDay_def msPerDay_def)
  have "toISOString 1700000000123 = date_time_text 2023 11 14 22 13 20 123"
    unfolding toISOString_def Let_def d y s l m b w by simp
  also have "\<dots> = ''2023-11-14T22:13:20.123Z''"
    by (simp add: date_time_text_def year_text_def pad_2 pad_3 pad_4 digit_def)
  finally show ?thesis .
qed

subsection \<open>Preference store: saving, then loading\<close>

lemma revive_stringify_message:
  assumes "timestamp m = Date (Some t)" "in_range t"
  shows "revive host (stringify_message m) = Returns (object_of_message m)"
proof -
  have p: "property (stringify_message m) ''timestamp'' = Some (JString (toISOString t))"
    using assms(1) by (simp add: property_def stringify_message_def)
  have d: "new_Date host (Some (JString (toISOString t))) = Date (Some t)"
    using assms(2) by (simp add: new_Date_def Date_parse_toISOString)
  show ?thesis
    unfolding revive_def p d
    by (simp add: stringify_message_def spread_def object_of_message_def assms(1))
qed

lemma revive_transcript:
  assumes "\<forall>m \<in> set history. \<exists>t. timestamp m = Date (Some t) \<and> in_range t"
  shows "map_throwing (revive host) (map stringify_message history)
     = Returns (map object_of_message history)"
  using assms
proof (induction history)
  case Nil
  then show ?case by simp
next
  case (Cons m history)
  then obtain t where "timestamp m = Date (Some t)" "in_range t" by auto
  then have "revive host (stringify_message m) = Returns (object_of_message m)"
    by (rule revive_stringify_message)
  then show ?case using Cons by simp
qed

lemma load_try_stringify:
  assumes "\<forall>m \<in> set (lastChat p). \<exists>t. timestamp m = Date (Some t) \<and> in_range t"
  shows "load_try host (stringify p) app
     = (app\<lparr>app_userName := JString (prefs_name p),
             app_rememberMe := JBoolean (prefs_rememberMe p),
             app_chatHistory := map object_of_message (lastChat p)\<rparr>, None)"
proof -
  define kvs where "kvs = [(''name'', JString (prefs_name p)),
              (''rememberMe'', JBoolean (prefs_rememberMe p)),
              (''lastChat'', JArray (map stringify_message (lastChat p)))]"
  have j: "stringify p = JObject kvs"
    by (simp add: stringify_def kvs_def)
  have n: "or_else (property (JObject kvs) ''name'') (JString []) = JString (prefs_name p)"
    by (simp add: property_def kvs_def or_else_def truthy_def)
  have r: "or_else (property (JObject kvs) ''rememberMe'') (JBoolean False)
      = JBoolean (prefs_rememberMe p)"
    by (simp add: property_def kvs_def or_else_def truthy_def)
  have l: "property (JObject kvs) ''lastChat''
      = Some (JArray (map stringify_message (lastChat p)))"
    by (simp add: property_def kvs_def)
  show ?thesis
    unfolding j load_try_def
    by (simp add: n r l revive_transcript[OF assms])
qed

text \<open>
  C3, as stated, fails on two kinds of preferences. With \<open>rememberMe\<close> false the save
  effect removes the stored item, and loading leaves the name empty. With \<open>rememberMe\<close>
  true, a message whose timestamp is the Invalid Date is stored with the timestamp
  \<^verbatim>\<open>null\<close> and is loaded with the timestamp of the epoch.
\<close>

theorem save_then_load_counterexample:
  "(\<forall>host. load_effect host (save_effect asha None, App_mounted) = (None, App_mounted))
   \<and> app_userName App_mounted \<noteq> JString (userName asha)
   \<and> (\<forall>host. app_chatHistory (snd (load_effect host
          (save_effect (asha\<lparr>rememberMe := True,
                              chatHistory := [greeting\<lparr>timestamp := Date None\<rparr>]\<rparr>) None,
           App_mounted)))
        = [object_of_message (greeting\<lparr>timestamp := Date (Some 0)\<rparr>)])
   \<and> object_of_message (greeting\<lparr>timestamp := Date (Some 0)\<rparr>)
        \<noteq> object_of_message (greeting\<lparr>timestamp := Date None\<rparr>)"
proof -
  have a: "save_effect asha None = None" by (simp add: save_effect_def asha_def)
  have b: "app_userName App_mounted \<noteq> JString (userName asha)"
    by (simp add: App_mounted_def asha_def)
  have c: "revive host (stringify_message (greeting\<lparr>timestamp := Date None\<rparr>))
      = Returns (object_of_message (greeting\<lparr>timestamp := Date (Some 0)\<rparr>))" for host
    by (simp add: revive_def stringify_message_def property_def new_Date_def TimeClip_def
        in_range_def spread_def object_of_message_def)
  have d: "load_try host (stringify \<lparr>prefs_name = ''Asha'', prefs_rememberMe = True,
               lastChat = [greeting\<lparr>timestamp := Date None\<rparr>]\<rparr>) App_mounted
      = (App_mounted\<lparr>app_userName := JString ''Asha'', app_rememberMe := JBoolean True,
           app_chatHistory := [object_of_message (greeting\<lparr>timestamp := Date (Some 0)\<rparr>)]\<rparr>,
         None)" for host
    by (simp add: load_try_def stringify_def property_def or_else_def truthy_def c)
  have e: "app_chatHistory (snd (load_effect host
          (save_effect (asha\<lparr>rememberMe := True,
                              chatHistory := [greeting\<lparr>timestamp := Date None\<rparr>]\<rparr>) None,
           App_mounted)))
        = [object_of_message (greeting\<lparr>timestamp := Date (Some 0)\<rparr>)]" for host
    by (simp add: load_effect_def save_effect_def asha_def d)
  have f: "object_of_message (greeting\<lparr>timestamp := Date (Some 0)\<rparr>)
        \<noteq> object_of_message (greeting\<lparr>timestamp := Date None\<rparr>)"
    by (simp add: object_of_message_def)
  show ?thesis using a b e f by (simp add: load_effect_def)
qed

text \<open>
  C3, amended. When \<open>rememberMe\<close> is true and every timestamp of the transcript is a
  valid instant, saving and then loading gives the same name, \<open>rememberMe\<close> true, and a
  transcript of the same messages in the same order, each with the same id, sender, text
  and timestamp, equal to the millisecond; the stored item stays.
\<close>

theorem save_then_load:
  assumes "rememberMe s"
    and "\<forall>m \<in> set (chatHistory s). \<exists>t. timestamp m = Date (Some t) \<and> in_range t"
  shows "load_effect host (save_effect s storage, app)
     = (save_effect s storage,
        app\<lparr>app_userName := JString (userName s), app_rememberMe := JBoolean True,
            app_chatHistory := map object_of_message (chatHistory s)\<rparr>)"
proof -
  let ?p = "\<lparr>prefs_name = userName s, prefs_rememberMe = True, lastChat = chatHistory s\<rparr>"
  have "\<forall>m \<in> set (lastChat ?p). \<exists>t. timestamp m = Date (Some t) \<and> in_range t"
    using assms(2) by simp
  from load_try_stringify[OF this, of host app] show ?thesis
    using assms(1) by (simp add: load_effect_def save_effect_def)
qed

theorem save_then_load_witness:
  "app_userName (snd (load_effect (\<lambda>s. None)
      (save_effect (asha\<lparr>rememberMe := True, chatHistory := [greeting, question]\<rparr>) None,
       App_mounted))) = JString ''Asha''
   \<and> app_rememberMe (snd (load_effect (\<lambda>s. None)
      (save_effect (asha\<lparr>rememberMe := True, chatHistory := [greeting, question]\<rparr>) None,
       App_mounted))) = JBoolean True
   \<and> app_chatHistory (snd (load_effect (\<lambda>s. None)
      (save_effect (asha\<lparr>rememberMe := True, chatHistory := [greeting, question]\<rparr>) None,
       App_mounted)))
     = [[(''id'', Plain (JString ''welcome'')), (''sender'', Plain (JString ''bhaii'')),
         (''text'', Plain (JString ''Namaste! Kya haal hai, mere bhai/behen? Kaise ho tum?'')),
         (''timestamp'', Date_value (Date (Some 1700000000000)))],
        [(''id'', Plain (JString ''1700000000500'')), (''sender'', Plain (JString ''user'')),
         (''text'', Plain (JString ''Kya chal raha hai?'')),
         (''timestamp'', Date_value (Date (Some 1700000000500)))]]"
proof -
  let ?s = "asha\<lparr>rememberMe := True, chatHistory := [greeting, question]\<rparr>"
  have a: "rememberMe ?s" by simp
  have b: "\<forall>m \<in> set (chatHistory ?s). \<exists>t. timestamp m = Date (Some t) \<and> in_range t"
    by (simp add: greeting_def question_def in_range_def)
  have c: "map object_of_message (chatHistory ?s)
     = [[(''id'', Plain (JString ''welcome'')), (''sender'', Plain (JString ''bhaii'')),
         (''text'', Plain (JString ''Namaste! Kya haal hai, mere bhai/behen? Kaise ho tum?'')),
         (''timestamp'', Date_value (Date (Some 1700000000000)))],
        [(''id'', Plain (JString ''1700000000500'')), (''sender'', Plain (JString ''user'')),
         (''text'', Plain (JString ''Kya chal raha hai?'')),
         (''timestamp'', Date_value (Date (Some 1700000000500)))]]"
    by (simp add: object_of_message_def greeting_def question_def sender_text_def)
  have d: "userName ?s = ''Asha''" by (simp add: asha_def)
  show ?thesis
    unfolding save_then_load[OF a b, of "\<lambda>s. None" None App_mounted] c d by simp
qed

subsection \<open>Preference store: stored values that fail to load\<close>

lemma failed_load_purges:
  assumes "load_try host userPrefs app = (app', Some e)"
  shows "load_effect host (Some (JSON_text userPrefs), app) = (None, app')"
  using assms by (simp add: load_effect_def)

lemma unparsable_text_is_discarded:
  "load_effect host (Some Not_JSON, app) = (None, app)"
  by (simp add: load_effect_def)

text \<open>
  C4. A stored text that is no JSON is purged and leaves the state as it was. A
  stored object with a name and the flag but no transcript is purged too, yet the name
  and the flag it held are in the state after the load.
\<close>

theorem malformed_preferences_partly_recovered:
  "load_effect host (Some Not_JSON, App_mounted) = (None, App_mounted)
   \<and> load_effect host
        (Some (JSON_text (JObject [(''name'', JString ''Bob''), (''rememberMe'', JBoolean True)])),
         App_mounted)
     = (None, App_mounted\<lparr>app_userName := JString ''Bob'', app_rememberMe := JBoolean True\<rparr>)
   \<and> App_mounted\<lparr>app_userName := JString ''Bob'', app_rememberMe := JBoolean True\<rparr>
       \<noteq> App_mounted"
  by (simp add: load_effect_def load_try_def property_def or_else_def truthy_def App_mounted_def)

end
